theory Spec2Isabelle
  imports Main "HOL-Library.List_Lexorder" "HOL-Library.Multiset"
begin

section \<open>Python strings\<close>

text \<open>
  A Python \<open>str\<close> is a sequence of Unicode code points; \<open>len\<close>, slicing and
  comparison work on code points. A string is therefore a list of code points, and an
  ASCII literal of the source is written \<open>u ''...''\<close>.
\<close>

type_synonym ustr = "nat list"

definition u :: "string \<Rightarrow> ustr" where
  "u s = map of_char s"

text \<open>
  \<open>str.isspace\<close> of one character, which is also what \<open>str.strip()\<close> removes and
  what \<open>\s\<close> matches in a \<open>str\<close> pattern: the ASCII controls 9..13 and 28..31, the space,
  and the Unicode spaces beyond ASCII.
\<close>

definition py_isspace :: "nat \<Rightarrow> bool" where
  "py_isspace c \<longleftrightarrow>
     (9 \<le> c \<and> c \<le> 13) \<or> (28 \<le> c \<and> c \<le> 32) \<or> c = 133 \<or> c = 160 \<or> c = 5760 \<or>
     (8192 \<le> c \<and> c \<le> 8202) \<or> c = 8232 \<or> c = 8233 \<or> c = 8239 \<or> c = 8287 \<or>
     c = 12288"

definition py_lstrip :: "ustr \<Rightarrow> ustr" where
  "py_lstrip s = dropWhile py_isspace s"

definition py_rstrip :: "ustr \<Rightarrow> ustr" where
  "py_rstrip s = rev (dropWhile py_isspace (rev s))"

definition py_strip :: "ustr \<Rightarrow> ustr" where
  "py_strip s = py_rstrip (py_lstrip s)"

text \<open>\<open>s.rstrip(chars)\<close>: drop trailing characters that occur in \<open>chars\<close>.\<close>

definition py_rstrip_chars :: "ustr \<Rightarrow> ustr \<Rightarrow> ustr" where
  "py_rstrip_chars chars s = rev (dropWhile (\<lambda>c. c \<in> set chars) (rev s))"

definition startswith :: "ustr \<Rightarrow> ustr \<Rightarrow> bool" where
  "startswith s p \<longleftrightarrow> take (length p) s = p"

text \<open>\<open>needle in hay\<close> for strings: \<open>needle\<close> occurs as a contiguous substring.\<close>

fun py_in :: "ustr \<Rightarrow> ustr \<Rightarrow> bool" where
  "py_in needle [] = (needle = [])"
| "py_in needle (c # cs) = (startswith (c # cs) needle \<or> py_in needle cs)"

text \<open>
  \<open>s.replace(old, new)\<close> for a non-empty \<open>old\<close> (every call of the source passes a
  non-empty literal): the occurrences are replaced from left to right, without overlap.
\<close>

function py_replace :: "ustr \<Rightarrow> ustr \<Rightarrow> ustr \<Rightarrow> ustr" where
  "py_replace old new [] = []"
| "py_replace old new (c # cs) =
     (if old \<noteq> [] \<and> startswith (c # cs) old
      then new @ py_replace old new (drop (length old) (c # cs))
      else c # py_replace old new cs)"
  by pat_completeness auto
termination
  by (relation "measure (\<lambda>(old, new, s). length s)") auto

text \<open>\<open>s.split(sep)\<close> for a separator of one character.\<close>

fun py_split :: "nat \<Rightarrow> ustr \<Rightarrow> ustr list" where
  "py_split sep [] = [[]]"
| "py_split sep (c # cs) =
     (if c = sep then [] # py_split sep cs
      else (case py_split sep cs of
              [] \<Rightarrow> [[c]]
            | p # ps \<Rightarrow> (c # p) # ps))"

fun py_join :: "ustr \<Rightarrow> ustr list \<Rightarrow> ustr" where
  "py_join sep [] = []"
| "py_join sep [p] = p"
| "py_join sep (p # q # ps) = p @ sep @ py_join sep (q # ps)"

section \<open>The Python runtime the script relies on\<close>

text \<open>
  The script calls \<open>str.lower\<close>, \<open>str.isdigit\<close>, \<open>int\<close>, \<open>repr\<close> and the
  \<open>re\<close> classes \<open>\d\<close> and \<open>\b\<close>. On ASCII their behaviour is written out below. Beyond
  ASCII it is read from the Unicode character database of the interpreter, which is not
  part of the repository: those tables are fields of \<open>pyenv\<close>, and every function that
  consults one takes the environment \<open>E\<close>. The other fields are the library calls of
  \<open>payload_fingerprint\<close> and the interpreter's limit on the digits of an integer literal
  (0 switches the limit off).
\<close>

text \<open>
  A coordinate is a Python \<open>float\<close>, here a mantissa and a binary exponent. The
  script computes nothing with coordinates: it stores them, forwards them and removes
  them before fingerprinting. The values of a payload are the JSON values the script
  puts into it.
\<close>

datatype pyfloat = Float64 int int

datatype jval =
    JInt int
  | JStr ustr
  | JBool bool
  | JFloat pyfloat
  | JIntList "int list"

type_synonym pydict = "(ustr \<times> jval) list"

record pyenv =
  lower_ext :: "ustr \<Rightarrow> nat \<Rightarrow> ustr"
  decimal_ext :: "nat \<Rightarrow> nat option"
  isdigit_ext :: "nat \<Rightarrow> bool"
  isalpha_ext :: "nat \<Rightarrow> bool"
  isnumeric_ext :: "nat \<Rightarrow> bool"
  isprintable_ext :: "nat \<Rightarrow> bool"
  int_max_str_digits :: nat
  json_dumps_utf8 :: "pydict \<Rightarrow> nat list"
  sha256_hexdigest :: "nat list \<Rightarrow> ustr"

text \<open>
  \<open>s.lower()\<close>: the interpreter lowers character by character; an ASCII capital becomes
  its small letter and every other ASCII character is kept. The lowering of a character
  beyond ASCII may be several characters and may depend on its neighbours (capital
  sigma), so the table receives the string and the position.
\<close>

definition lower_at :: "pyenv \<Rightarrow> ustr \<Rightarrow> nat \<Rightarrow> ustr" where
  "lower_at E s i =
     (let c = s ! i
      in if c < 128 then [if 65 \<le> c \<and> c \<le> 90 then c + 32 else c]
         else lower_ext E s i)"

definition py_lower :: "pyenv \<Rightarrow> ustr \<Rightarrow> ustr" where
  "py_lower E s = concat (map (lower_at E s) [0..<length s])"

text \<open>The decimal value of a character of category Nd; this is also the class \<open>\d\<close>.\<close>

definition decimal_value :: "pyenv \<Rightarrow> nat \<Rightarrow> nat option" where
  "decimal_value E c =
     (if c < 128 then (if 48 \<le> c \<and> c \<le> 57 then Some (c - 48) else None)
      else decimal_ext E c)"

definition re_digit :: "pyenv \<Rightarrow> nat \<Rightarrow> bool" where
  "re_digit E c \<longleftrightarrow> decimal_value E c \<noteq> None"

definition isdigit_char :: "pyenv \<Rightarrow> nat \<Rightarrow> bool" where
  "isdigit_char E c \<longleftrightarrow> (if c < 128 then 48 \<le> c \<and> c \<le> 57 else isdigit_ext E c)"

definition py_isdigit :: "pyenv \<Rightarrow> ustr \<Rightarrow> bool" where
  "py_isdigit E s \<longleftrightarrow> s \<noteq> [] \<and> list_all (isdigit_char E) s"

text \<open>The class \<open>\w\<close> behind \<open>\b\<close>: alphanumeric characters and the underscore.\<close>

definition re_word :: "pyenv \<Rightarrow> nat \<Rightarrow> bool" where
  "re_word E c \<longleftrightarrow>
     (if c < 128
      then (48 \<le> c \<and> c \<le> 57) \<or> (65 \<le> c \<and> c \<le> 90) \<or> (97 \<le> c \<and> c \<le> 122) \<or> c = 95
      else isalpha_ext E c \<or> decimal_ext E c \<noteq> None \<or> isdigit_ext E c \<or> isnumeric_ext E c)"

section \<open>Integers and their text\<close>

fun str_nat :: "nat \<Rightarrow> ustr" where
  "str_nat n = (if n < 10 then [48 + n] else str_nat (n div 10) @ [48 + n mod 10])"

declare str_nat.simps [simp del]

definition str_int :: "int \<Rightarrow> ustr" where
  "str_int i = (if i < 0 then 45 # str_nat (nat (- i)) else str_nat (nat i))"

text \<open>
  The format \<open>{:02d}\<close>: the decimal text, filled with zeros after the sign up to a width
  of two characters, the sign included.
\<close>

definition fmt02d :: "int \<Rightarrow> ustr" where
  "fmt02d i =
     (if i < 0 then 45 # str_nat (nat (- i))
      else if i < 10 then 48 # str_nat (nat i)
      else str_nat (nat i))"

text \<open>
  \<open>int(s)\<close> in base 10. The text is stripped of white space (of the ASCII characters
  only 9..13 and the space count here), a sign may lead, and the digits may be separated
  by single underscores. \<open>None\<close> stands for the \<open>ValueError\<close>.
\<close>

definition int_space :: "nat \<Rightarrow> bool" where
  "int_space c \<longleftrightarrow> (if c < 128 then (9 \<le> c \<and> c \<le> 13) \<or> c = 32 else py_isspace c)"

fun int_digits :: "pyenv \<Rightarrow> bool \<Rightarrow> ustr \<Rightarrow> nat list option" where
  "int_digits E after_digit [] = (if after_digit then Some [] else None)"
| "int_digits E after_digit (c # cs) =
     (if c = 95 then (if after_digit then int_digits E False cs else None)
      else (case decimal_value E c of
              None \<Rightarrow> None
            | Some d \<Rightarrow> map_option (Cons d) (int_digits E True cs)))"

definition py_int :: "pyenv \<Rightarrow> ustr \<Rightarrow> int option" where
  "py_int E s =
     (let t = rev (dropWhile int_space (rev (dropWhile int_space s)));
          negative = (t \<noteq> [] \<and> hd t = 45);
          body = (if t \<noteq> [] \<and> (hd t = 45 \<or> hd t = 43) then tl t else t)
      in case int_digits E False body of
           None \<Rightarrow> None
         | Some ds \<Rightarrow>
             if 640 < length ds \<and> 0 < int_max_str_digits E \<and> int_max_str_digits E < length ds
             then None
             else let n = int (foldl (\<lambda>a d. 10 * a + d) 0 ds)
                  in Some (if negative then - n else n))"

section \<open>Schedule fields\<close>

definition WEEKDAY_MAP :: "(ustr \<times> int) list" where
  "WEEKDAY_MAP =
     [(u ''Sunnuntai'', 0), (u ''Maanantai'', 1), (u ''Tiistai'', 2), (u ''Keskiviikko'', 3),
      (u ''Torstai'', 4), (u ''Perjantai'', 5), (u ''Lauantai'', 6)]"

text \<open>
  The \<open>try\<close> block of \<open>normalize_time\<close>: \<open>Some\<close> the formatted time when one of its two
  \<open>return\<close> statements is reached, \<open>None\<close> when an exception is raised or neither
  condition holds; in both of those cases the function returns \<open>s\<close>.
\<close>

definition parse_time :: "pyenv \<Rightarrow> ustr \<Rightarrow> ustr option" where
  "parse_time E s =
     (let parts = py_split 58 s
      in if length parts = 1 \<and> py_isdigit E (parts ! 0)
         then (case py_int E (parts ! 0) of
                 None \<Rightarrow> None
               | Some h \<Rightarrow> Some (fmt02d h @ u '':00''))
         else if 2 \<le> length parts
         then (case py_int E (parts ! 0) of
                 None \<Rightarrow> None
               | Some h \<Rightarrow>
                   (case py_int E (parts ! 1) of
                      None \<Rightarrow> None
                    | Some m \<Rightarrow> Some (fmt02d h @ u '':'' @ fmt02d m)))
         else None)"

definition normalize_time :: "pyenv \<Rightarrow> ustr \<Rightarrow> ustr" where
  "normalize_time E val =
     (if val = [] then []
      else let s = py_replace (u ''.'') (u '':'') (py_strip val)
           in case parse_time E s of Some t \<Rightarrow> t | None \<Rightarrow> s)"

definition duration_hm :: "pyenv \<Rightarrow> ustr \<Rightarrow> ustr" where
  "duration_hm E minutes_val =
     (let mins0 = (case py_int E (py_strip minutes_val) of None \<Rightarrow> 90 | Some n \<Rightarrow> n);
          mins = (if mins0 \<le> 0 then 90 else mins0)
      in fmt02d (mins div 60) @ u '':'' @ fmt02d (mins mod 60))"

section \<open>Text normalizer\<close>

definition COMMENTS_MAX :: nat where
  "COMMENTS_MAX = 512"

text \<open>The ellipsis character U+2026 of the source literal.\<close>

definition ELLIPSIS :: nat where
  "ELLIPSIS = 8230"

definition truncate_comments :: "ustr \<Rightarrow> ustr" where
  "truncate_comments s =
     (if s = [] then []
      else if length s \<le> COMMENTS_MAX then s
      else if COMMENTS_MAX \<le> 3 then take COMMENTS_MAX s
      else take (COMMENTS_MAX - 1) s @ [ELLIPSIS])"

fun drop_tags :: "bool \<Rightarrow> ustr \<Rightarrow> ustr" where
  "drop_tags in_tag [] = []"
| "drop_tags in_tag (ch # cs) =
     (if ch = 60 then drop_tags True cs
      else if ch = 62 then drop_tags False cs
      else if \<not> in_tag then ch # drop_tags in_tag cs
      else drop_tags in_tag cs)"

definition strip_html_like :: "ustr \<Rightarrow> ustr" where
  "strip_html_like s =
     (if s = [] then []
      else let txt = py_replace (u ''<br>'') [10]
                       (py_replace (u ''<br/>'') [10] (py_replace (u ''<br />'') [10] s));
               cleaned = drop_tags False txt;
               cleaned = py_replace [13] [10] (py_replace [13, 10] [10] cleaned);
               cleaned = py_join [10]
                           (map py_strip
                              (filter (\<lambda>line. py_strip line \<noteq> []) (py_split 10 cleaned)))
           in py_strip cleaned)"

section \<open>Source records\<close>

text \<open>
  A record of the content API, by the keys the script reads. A field read as
  \<open>obj.get(key) or ""\<close> is a string, empty when the key is absent or null. The two tag
  fields go through \<open>split_tokens\<close>, which accepts a string or a list of strings.
\<close>

datatype tagfield = TagNone | TagStr ustr | TagList "ustr list"

record wp_item =
  wp_id :: int
  title_rendered :: ustr
  slug :: ustr
  weekday :: ustr
  alkamisaika :: ustr
  kesto :: ustr
  katuosoite :: ustr
  postinumero :: ustr
  kaupunki :: ustr
  maa :: ustr
  karttalinkki :: ustr
  lisatiedot :: ustr
  rel_kokousmuodot :: tagfield
  rel_kokouskielet :: tagfield

text \<open>Truth value of a tag field: \<open>None\<close>, the empty string and the empty list are false.\<close>

fun tag_truthy :: "tagfield \<Rightarrow> bool" where
  "tag_truthy TagNone = False"
| "tag_truthy (TagStr s) = (s \<noteq> [])"
| "tag_truthy (TagList xs) = (xs \<noteq> [])"

definition hex_digit :: "nat \<Rightarrow> nat" where
  "hex_digit d = (if d < 10 then 48 + d else 87 + d)"

fun hex_fixed :: "nat \<Rightarrow> nat \<Rightarrow> ustr" where
  "hex_fixed 0 n = []"
| "hex_fixed (Suc w) n = hex_fixed w (n div 16) @ [hex_digit (n mod 16)]"

definition isprintable_char :: "pyenv \<Rightarrow> nat \<Rightarrow> bool" where
  "isprintable_char E c \<longleftrightarrow> (if c < 128 then 32 \<le> c \<and> c < 127 else isprintable_ext E c)"

text \<open>\<open>repr\<close> of a string, as \<open>str\<close> of a list prints its elements.\<close>

definition repr_char :: "pyenv \<Rightarrow> nat \<Rightarrow> nat \<Rightarrow> ustr" where
  "repr_char E quote c =
     (if c = quote \<or> c = 92 then [92, c]
      else if c = 9 then [92, 116]
      else if c = 10 then [92, 110]
      else if c = 13 then [92, 114]
      else if isprintable_char E c then [c]
      else if c < 256 then [92, 120] @ hex_fixed 2 c
      else if c < 65536 then [92, 117] @ hex_fixed 4 c
      else [92, 85] @ hex_fixed 8 c)"

definition py_repr :: "pyenv \<Rightarrow> ustr \<Rightarrow> ustr" where
  "py_repr E s =
     (let quote = (if 39 \<in> set s \<and> 34 \<notin> set s then 34 else 39)
      in [quote] @ concat (map (repr_char E quote) s) @ [quote])"

fun tag_str :: "pyenv \<Rightarrow> tagfield \<Rightarrow> ustr" where
  "tag_str E TagNone = u ''None''"
| "tag_str E (TagStr s) = s"
| "tag_str E (TagList xs) = u ''['' @ py_join (u '', '') (map (py_repr E) xs) @ u '']''"

fun split_tokens :: "tagfield \<Rightarrow> ustr list" where
  "split_tokens TagNone = []"
| "split_tokens (TagList xs) = map py_strip (filter (\<lambda>x. x \<noteq> []) xs)"
| "split_tokens (TagStr v) =
     (if v = [] then []
      else let s = py_replace (u '','') (u '','') v;
               s = py_replace (u '' ja '') (u '','') s;
               s = py_replace (u '' & '') (u '','') s;
               s = py_replace (u '';'') (u '','') s
           in map py_strip (filter (\<lambda>x. py_strip x \<noteq> []) (py_split 44 s)))"

section \<open>Record classifier\<close>

definition is_virtual :: "pyenv \<Rightarrow> wp_item \<Rightarrow> bool" where
  "is_virtual E obj =
     (let street = py_lower E (katuosoite obj);
          city = py_lower E (kaupunki obj);
          link = py_lower E (karttalinkki obj)
      in if py_in (u ''internet'') city \<or> py_in (u ''zoom'') street \<or>
            py_in (u ''zoom'') link \<or> py_in (u ''teams'') link
         then True
         else False)"

text \<open>
  \<open>re.search(r"(https?://\S+)", text)\<close>. At a position the pattern matches when the text
  continues with \<open>https://\<close> or \<open>http://\<close> and at least one character that is not white
  space; the match runs to the next white space. The search takes the leftmost position.
\<close>

definition url_at :: "ustr \<Rightarrow> ustr option" where
  "url_at s =
     (let n = (if startswith s (u ''https://'') then 8
               else if startswith s (u ''http://'') then 7 else 0);
          body = takeWhile (\<lambda>c. \<not> py_isspace c) (drop n s)
      in if n = 0 \<or> body = [] then None else Some (take n s @ body))"

fun search_url :: "ustr \<Rightarrow> ustr option" where
  "search_url [] = None"
| "search_url (c # cs) =
     (case url_at (c # cs) of Some m \<Rightarrow> Some m | None \<Rightarrow> search_url cs)"

definition extract_first_url :: "ustr \<Rightarrow> ustr" where
  "extract_first_url text =
     (if text = [] then []
      else (case search_url text of
              None \<Rightarrow> []
            | Some m \<Rightarrow> py_rstrip_chars (u '').,]'') m))"

text \<open>
  \<open>re.search(r"(\+\d{6,15}|\b0\d{6,15}\b)", compact)\<close>. \<open>prev\<close> is the character before
  the position (\<open>None\<close> at the start), which the word boundary \<open>\b\<close> looks at. The first
  alternative takes a plus sign and up to 15 of at least 6 digits. The second takes a
  zero at a word boundary and a run of 6 to 15 digits that ends at a word boundary: a
  shorter part of the run never ends at one, since a digit follows it.
\<close>

definition phone_compact_at :: "pyenv \<Rightarrow> nat option \<Rightarrow> ustr \<Rightarrow> ustr option" where
  "phone_compact_at E prev s =
     (case s of
        [] \<Rightarrow> None
      | c # cs \<Rightarrow>
          (let ds = takeWhile (re_digit E) cs;
               rest = dropWhile (re_digit E) cs
           in if c = 43 \<and> 6 \<le> length ds then Some (c # take 15 ds)
              else if c = 48 \<and> (case prev of None \<Rightarrow> True | Some p \<Rightarrow> \<not> re_word E p) \<and>
                      6 \<le> length ds \<and> length ds \<le> 15 \<and>
                      (case rest of [] \<Rightarrow> True | r # _ \<Rightarrow> \<not> re_word E r)
              then Some (c # ds)
              else None))"

fun search_phone_compact :: "pyenv \<Rightarrow> nat option \<Rightarrow> ustr \<Rightarrow> ustr option" where
  "search_phone_compact E prev [] = None"
| "search_phone_compact E prev (c # cs) =
     (case phone_compact_at E prev (c # cs) of
        Some m \<Rightarrow> Some m
      | None \<Rightarrow> search_phone_compact E (Some c) cs)"

text \<open>
  \<open>re.search(r"(\+\d[\d\s\-]{6,20}|\b0\d[\d\s\-]{6,20})", t)\<close>: a plus sign, or a zero at a
  word boundary, then a digit, then up to 20 of at least 6 digits, spaces and dashes.
\<close>

definition phone_loose_at :: "pyenv \<Rightarrow> nat option \<Rightarrow> ustr \<Rightarrow> ustr option" where
  "phone_loose_at E prev s =
     (case s of
        c # d # cs \<Rightarrow>
          (let run = takeWhile (\<lambda>x. re_digit E x \<or> py_isspace x \<or> x = 45) cs
           in if (c = 43 \<or> (c = 48 \<and> (case prev of None \<Rightarrow> True | Some p \<Rightarrow> \<not> re_word E p))) \<and>
                 re_digit E d \<and> 6 \<le> length run
              then Some (c # d # take 20 run)
              else None)
      | _ \<Rightarrow> None)"

fun search_phone_loose :: "pyenv \<Rightarrow> nat option \<Rightarrow> ustr \<Rightarrow> ustr option" where
  "search_phone_loose E prev [] = None"
| "search_phone_loose E prev (c # cs) =
     (case phone_loose_at E prev (c # cs) of
        Some m \<Rightarrow> Some m
      | None \<Rightarrow> search_phone_loose E (Some c) cs)"

definition extract_phone_number :: "pyenv \<Rightarrow> ustr \<Rightarrow> ustr" where
  "extract_phone_number E text =
     (if text = [] then []
      else let t = strip_html_like text;
               compact = py_replace (u ''-'') [] (py_replace (u '' '') [] t)
           in case search_phone_compact E None compact of
                Some m \<Rightarrow> m
              | None \<Rightarrow>
                  (case search_phone_loose E None t of
                     Some m2 \<Rightarrow> filter (\<lambda>c. re_digit E c \<or> c = 43) m2
                   | None \<Rightarrow> []))"

section \<open>Geocode query\<close>

text \<open>
  \<open>re.sub(r"\([^)]*\)", "", s)\<close>: an opening parenthesis with a closing one somewhere
  after it is removed together with everything up to the first closing one.
\<close>

function remove_parens :: "ustr \<Rightarrow> ustr" where
  "remove_parens [] = []"
| "remove_parens (c # cs) =
     (if c = 40 \<and> 41 \<in> set cs
      then remove_parens (tl (dropWhile (\<lambda>x. x \<noteq> 41) cs))
      else c # remove_parens cs)"
  by pat_completeness auto
termination
proof (relation "measure length")
  fix c :: nat and cs :: ustr
  have "length (dropWhile (\<lambda>x. x \<noteq> 41) cs) \<le> length cs"
    by (rule length_dropWhile_le)
  then show "(tl (dropWhile (\<lambda>x. x \<noteq> 41) cs), c # cs) \<in> measure length"
    by simp
qed simp_all

text \<open>\<open>re.sub(r"\s+", " ", s)\<close>: every run of white space becomes one space.\<close>

function collapse_spaces :: "ustr \<Rightarrow> ustr" where
  "collapse_spaces [] = []"
| "collapse_spaces (c # cs) =
     (if py_isspace c then 32 # collapse_spaces (dropWhile py_isspace cs)
      else c # collapse_spaces cs)"
  by pat_completeness auto
termination
  by (relation "measure length") (auto simp: less_Suc_eq_le length_dropWhile_le)

definition clean_part :: "ustr \<Rightarrow> ustr" where
  "clean_part s =
     (if s = [] then []
      else let s = py_strip s;
               s = py_strip (remove_parens s);
               s = py_replace (u ''/'') (u '' '') s;
               s = py_strip (collapse_spaces s)
           in s)"

definition clean_geocode_query :: "ustr \<Rightarrow> ustr \<Rightarrow> ustr \<Rightarrow> ustr \<Rightarrow> ustr" where
  "clean_geocode_query street postal city country =
     (let street_c = clean_part street;
          postal_c = clean_part postal;
          city_c = clean_part city;
          country_c = clean_part country;
          parts = filter (\<lambda>p. p \<noteq> []) [street_c, postal_c, city_c, country_c]
      in py_join (u '', '') parts)"

section \<open>Format resolver\<close>

definition FORMAT_KEY_MAP :: "(ustr \<times> ustr) list" where
  "FORMAT_KEY_MAP =
     [(u ''suomi'', u ''FIN''),
      (u ''englanti'', u ''ENG''),
      (u ''ven'' @ [228] @ u ''j'' @ [228], u ''L/R''),
      (u ''Avoin'', u ''O''),
      (u ''Suljettu'', u ''C''),
      (u ''Meditaatio'', u ''ME''),
      (u ''Puhujakokous'', u ''So''),
      (u ''Askelty'' @ [246] @ u ''kokous'', u ''St''),
      (u ''Hybridi'', u ''HY'')]"

text \<open>
  The loop over the tokens; the set \<open>seen\<close> of the source always holds the elements of
  \<open>keys\<close>, so membership in \<open>keys\<close> stands for it.
\<close>

fun collect_keys :: "ustr list \<Rightarrow> ustr list \<Rightarrow> ustr list" where
  "collect_keys keys [] = keys"
| "collect_keys keys (t # ts) =
     (case map_of FORMAT_KEY_MAP t of
        None \<Rightarrow> collect_keys keys ts
      | Some key \<Rightarrow>
          if key \<noteq> [] \<and> key \<notin> set keys then collect_keys (keys @ [key]) ts
          else collect_keys keys ts)"

text \<open>\<open>if fid\<close>: the key is in the index and its id is not 0.\<close>

definition lookup_format :: "(ustr \<rightharpoonup> int) \<Rightarrow> ustr \<Rightarrow> int option" where
  "lookup_format format_key_to_id k =
     (case format_key_to_id k of
        None \<Rightarrow> None
      | Some fid \<Rightarrow> if fid \<noteq> 0 then Some fid else None)"

definition build_format_ids :: "pyenv \<Rightarrow> wp_item \<Rightarrow> (ustr \<rightharpoonup> int) \<Rightarrow> int list \<times> ustr list" where
  "build_format_ids E obj format_key_to_id =
     (let tokens = split_tokens (rel_kokousmuodot obj) @ split_tokens (rel_kokouskielet obj);
          keys = (if is_virtual E obj then [u ''VM''] else []);
          keys = collect_keys keys tokens;
          ids = List.map_filter (lookup_format format_key_to_id) keys;
          missing_keys = filter (\<lambda>k. lookup_format format_key_to_id k = None) keys
      in (ids, missing_keys))"

section \<open>Configuration, collaborators and run state\<close>

record config =
  BMLT_BASE_URL :: ustr
  SERVICE_BODY_ID :: int
  DEFAULT_LAT :: pyfloat
  DEFAULT_LON :: pyfloat
  ALLOW_FALLBACK_COORDS :: bool
  DEFAULT_PROVINCE :: ustr

definition BMLT_API_PREFIX :: ustr where
  "BMLT_API_PREFIX = u ''/api/v1''"

definition VENUE_IN_PERSON :: int where
  "VENUE_IN_PERSON = 1"

definition VENUE_VIRTUAL :: int where
  "VENUE_VIRTUAL = 2"

definition VENUE_HYBRID :: int where
  "VENUE_HYBRID = 3"

text \<open>
  What the geocoding service does when \<open>geocode_address\<close> is called for a record: it
  returns a pair, returns no result, or the call raises. A record makes at most one
  lookup and at most one request to the registry, so a run is given one reply of each
  kind per record.
\<close>

datatype geo_reply = Geo_found pyfloat pyfloat | Geo_empty | Geo_raise

text \<open>
  How a call of \<open>bmlt_create_meeting\<close> ends: it returns, it raises \<open>HTTPError\<close> with a
  status code, or it raises another exception. The \<open>HTTPError\<close> carries what
  \<open>e.read()\<close> does in the handler: it gives the body, or (\<open>None\<close>) it raises.
\<close>

datatype call_result = Call_returns | Call_http_error int "ustr option" | Call_raises

text \<open>
  What the registry answers to the \<open>POST\<close>. \<open>urlopen\<close> follows a reply 301, 302 or
  303 to a \<open>POST\<close> that names a location with a \<open>GET\<close>, and the call then ends as that
  exchange ends (\<open>Reg_followed\<close>). Every other reply ends the exchange
  (\<open>Reg_status\<close>, with the result of reading its body, \<open>None\<close> when the read raises):
  on a status from 200 to 299 \<open>http_json\<close> reads the body and returns, on any other
  status \<open>urlopen\<close> raises \<open>HTTPError\<close>. Without a reply the call raises
  (\<open>Reg_no_reply\<close>).
\<close>

datatype redirect_code = Moved_301 | Found_302 | See_other_303

datatype registry_reply =
    Reg_status int "ustr option"
  | Reg_followed redirect_code call_result
  | Reg_no_reply



fun call_of :: "registry_reply \<Rightarrow> call_result" where
  "call_of (Reg_status code body) =
     (if 200 \<le> code \<and> code < 300
      then (case body of None \<Rightarrow> Call_raises | Some raw \<Rightarrow> Call_returns)
      else Call_http_error code body)"
| "call_of (Reg_followed rc after) = after"
| "call_of Reg_no_reply = Call_raises"

text \<open>
  The publish step of a record: the registry's reply, whether the \<open>print\<close> calls
  inside the \<open>try\<close> block succeed, and whether the \<open>print\<close> of an \<open>except\<close> clause
  succeeds. A \<open>print\<close> that fails raises.
\<close>

record pub_reply =
  registry :: registry_reply
  note_print_ok :: bool
  failed_print_ok :: bool

text \<open>
  The calls a run makes, in their order: a lookup at the geocoding service with its
  query, \<open>time.sleep(1.1)\<close>, and a request to the registry with its verb, URL and body.
\<close>

datatype http_verb = GET | POST | PUT | PATCH | DELETE

datatype event =
    Geocode_call ustr
  | Sleep
  | Registry_request http_verb ustr pydict

record run_state =
  created :: nat
  skipped :: nat
  failed :: nat
  skipped_reasons :: "ustr \<rightharpoonup> nat"
  failed_reasons :: "ustr \<rightharpoonup> nat"
  fingerprints :: "ustr \<rightharpoonup> ustr"
  geocode_cache :: "ustr \<rightharpoonup> pyfloat \<times> pyfloat"
  trace :: "event list"

text \<open>\<open>d[k] = d.get(k, 0) + 1\<close>\<close>

definition bump :: "ustr \<Rightarrow> (ustr \<rightharpoonup> nat) \<Rightarrow> (ustr \<rightharpoonup> nat)" where
  "bump k d = d(k \<mapsto> (case d k of None \<Rightarrow> 0 | Some n \<Rightarrow> n) + 1)"

definition count_skip :: "ustr \<Rightarrow> run_state \<Rightarrow> run_state" where
  "count_skip reason st =
     st\<lparr>skipped := skipped st + 1, skipped_reasons := bump reason (skipped_reasons st)\<rparr>"

definition count_failure :: "ustr \<Rightarrow> run_state \<Rightarrow> run_state" where
  "count_failure reason st =
     st\<lparr>failed := failed st + 1, failed_reasons := bump reason (failed_reasons st)\<rparr>"

definition emit :: "event list \<Rightarrow> run_state \<Rightarrow> run_state" where
  "emit evs st = st\<lparr>trace := trace st @ evs\<rparr>"

section \<open>Fingerprint\<close>

definition dict_pop :: "ustr \<Rightarrow> pydict \<Rightarrow> pydict" where
  "dict_pop k d = filter (\<lambda>kv. fst kv \<noteq> k) d"

text \<open>
  \<open>json.dumps(relevant, sort_keys=True, ensure_ascii=False).encode("utf-8")\<close> writes the
  items in the order of their keys: the items are sorted here, and the environment's
  serialiser writes them in the order it is given.
\<close>

definition payload_fingerprint :: "pyenv \<Rightarrow> pydict \<Rightarrow> ustr" where
  "payload_fingerprint E payload =
     (let relevant = payload;
          relevant = dict_pop (u ''latitude'') relevant;
          relevant = dict_pop (u ''longitude'') relevant;
          blob = json_dumps_utf8 E (sort_key fst relevant)
      in sha256_hexdigest E blob)"

section \<open>Transformation pipeline\<close>

text \<open>
  The body of the loop of \<open>main\<close> in four parts: the checks and derived fields up to
  the format guard (\<open>transform\<close>), the coordinates (\<open>resolve_coordinates\<close>), the payload
  (\<open>build_payload\<close>), and the comparison with the stored fingerprint followed by the
  request (\<open>publish\<close>). A \<open>continue\<close> of the source is a result \<open>Inl reason\<close>.
\<close>

record draft =
  title :: ustr
  day :: int
  start_time :: ustr
  duration :: ustr
  street :: ustr
  postal :: ustr
  city :: ustr
  country :: ustr
  map_url :: ustr
  comments :: ustr
  virtual_link :: ustr
  phone_number :: ustr
  venue_type :: int
  format_ids :: "int list"
  missing_format_keys :: "ustr list"
  removed :: "int list"

definition item_title :: "wp_item \<Rightarrow> ustr" where
  "item_title obj =
     (if title_rendered obj \<noteq> [] then title_rendered obj
      else if slug obj \<noteq> [] then slug obj
      else u ''WP-'' @ str_int (wp_id obj))"

definition item_country :: "wp_item \<Rightarrow> ustr" where
  "item_country obj =
     (if py_strip (maa obj) \<noteq> [] then py_strip (maa obj) else u ''Finland'')"

text \<open>The link of a virtual record: the map link when it is an absolute URL, else the
  first URL of the notes.\<close>

definition item_virtual_link :: "wp_item \<Rightarrow> ustr" where
  "item_virtual_link obj =
     (let map_url = py_strip (karttalinkki obj);
          comments_raw = strip_html_like (lisatiedot obj);
          virtual_link =
            (if startswith map_url (u ''http://'') \<or> startswith map_url (u ''https://'')
             then map_url else [])
      in if virtual_link = [] then extract_first_url comments_raw else virtual_link)"

definition item_venue_type :: "pyenv \<Rightarrow> wp_item \<Rightarrow> int" where
  "item_venue_type E obj =
     (let street = py_strip (katuosoite obj);
          postal = py_strip (postinumero obj);
          city = py_strip (kaupunki obj);
          venue_type = (if is_virtual E obj then VENUE_VIRTUAL else VENUE_IN_PERSON)
      in if tag_truthy (rel_kokousmuodot obj) \<and>
            py_in (u ''Hybridi'') (tag_str E (rel_kokousmuodot obj))
         then (if street \<noteq> [] \<and> (city \<noteq> [] \<or> postal \<noteq> []) then VENUE_HYBRID
               else VENUE_VIRTUAL)
         else venue_type)"

text \<open>The ids left by the valid-id filter, before the fallback.\<close>

definition filtered_format_ids ::
  "pyenv \<Rightarrow> (ustr \<rightharpoonup> int) \<Rightarrow> int set \<Rightarrow> wp_item \<Rightarrow> int list" where
  "filtered_format_ids E format_key_to_id allowed_format_ids obj =
     filter (\<lambda>fid. fid \<in> allowed_format_ids) (fst (build_format_ids E obj format_key_to_id))"

definition item_format_ids ::
  "pyenv \<Rightarrow> (ustr \<rightharpoonup> int) \<Rightarrow> int set \<Rightarrow> wp_item \<Rightarrow> int list" where
  "item_format_ids E format_key_to_id allowed_format_ids obj =
     (let format_ids = filtered_format_ids E format_key_to_id allowed_format_ids obj
      in if format_ids = [] \<and> format_key_to_id (u ''FIN'') \<noteq> None
         then (case format_key_to_id (u ''FIN'') of
                 None \<Rightarrow> format_ids
               | Some fin_id \<Rightarrow> if fin_id \<in> allowed_format_ids then [fin_id] else format_ids)
         else format_ids)"

definition transform ::
  "pyenv \<Rightarrow> (ustr \<rightharpoonup> int) \<Rightarrow> int set \<Rightarrow> wp_item \<Rightarrow> ustr + draft" where
  "transform E format_key_to_id allowed_format_ids obj =
     (let weekday_fi = py_strip (weekday obj);
          start = normalize_time E (alkamisaika obj)
      in case map_of WEEKDAY_MAP weekday_fi of
           None \<Rightarrow> Inl (u ''missing_day_or_time'')
         | Some d \<Rightarrow>
             if start = [] then Inl (u ''missing_day_or_time'')
             else
               let str = py_strip (katuosoite obj);
                   pst = py_strip (postinumero obj);
                   cty = py_strip (kaupunki obj);
                   virtual = is_virtual E obj;
                   link = (if virtual then item_virtual_link obj else []);
                   phone = (if virtual then extract_phone_number E (lisatiedot obj) else [])
               in if virtual \<and> link = [] \<and> phone = []
                  then Inl (u ''virtual_missing_link_or_phone'')
                  else if \<not> virtual \<and> (str = [] \<or> (cty = [] \<and> pst = []))
                  then Inl (u ''in_person_missing_address'')
                  else
                    let ids = item_format_ids E format_key_to_id allowed_format_ids obj
                    in if ids = [] then Inl (u ''no_valid_formats'')
                       else Inr \<lparr>title = item_title obj,
                                 day = d,
                                 start_time = start,
                                 duration = duration_hm E (kesto obj),
                                 street = str,
                                 postal = pst,
                                 city = cty,
                                 country = item_country obj,
                                 map_url = py_strip (karttalinkki obj),
                                 comments = truncate_comments (strip_html_like (lisatiedot obj)),
                                 virtual_link = link,
                                 phone_number = phone,
                                 venue_type = item_venue_type E obj,
                                 format_ids = ids,
                                 missing_format_keys = snd (build_format_ids E obj format_key_to_id),
                                 removed = filter (\<lambda>fid. fid \<notin> allowed_format_ids)
                                             (fst (build_format_ids E obj format_key_to_id))\<rparr>)"

definition geocode_query :: "draft \<Rightarrow> ustr" where
  "geocode_query m = clean_geocode_query (street m) (postal m) (city m) (country m)"

definition resolve_coordinates ::
  "config \<Rightarrow> draft \<Rightarrow> geo_reply \<Rightarrow> run_state \<Rightarrow> (ustr + pyfloat \<times> pyfloat) \<times> run_state" where
  "resolve_coordinates C m geo st =
     (let fallback = (DEFAULT_LAT C, DEFAULT_LON C)
      in if venue_type m = VENUE_IN_PERSON \<or> venue_type m = VENUE_HYBRID
         then
           (let q = geocode_query m
            in if q \<noteq> []
               then (case geocode_cache st q of
                       Some latlon \<Rightarrow> (Inr latlon, st)
                     | None \<Rightarrow>
                         (case geo of
                            Geo_found lat lon \<Rightarrow>
                              (Inr (lat, lon),
                               (emit [Geocode_call q, Sleep] st)
                                 \<lparr>geocode_cache := (geocode_cache st)(q \<mapsto> (lat, lon))\<rparr>)
                          | Geo_empty \<Rightarrow>
                              (if \<not> ALLOW_FALLBACK_COORDS C then Inl (u ''geocode_failed'')
                               else Inr fallback,
                               emit [Geocode_call q, Sleep] st)
                          | Geo_raise \<Rightarrow>
                              (if \<not> ALLOW_FALLBACK_COORDS C then Inl (u ''geocode_error'')
                               else Inr fallback,
                               emit [Geocode_call q] st)))
               else (Inr fallback, st))
         else (Inr fallback, st))"

definition build_payload :: "config \<Rightarrow> wp_item \<Rightarrow> draft \<Rightarrow> pyfloat \<times> pyfloat \<Rightarrow> pydict" where
  "build_payload C obj m latlon =
     [(u ''serviceBodyId'', JInt (SERVICE_BODY_ID C)),
      (u ''name'', JStr (strip_html_like (title m))),
      (u ''day'', JInt (day m)),
      (u ''startTime'', JStr (start_time m)),
      (u ''duration'', JStr (duration m)),
      (u ''published'', JBool True),
      (u ''venueType'', JInt (venue_type m)),
      (u ''latitude'', JFloat (fst latlon)),
      (u ''longitude'', JFloat (snd latlon)),
      (u ''formatIds'', JIntList (format_ids m)),
      (u ''locationStreet'', JStr (street m)),
      (u ''locationCity'', JStr (city m)),
      (u ''locationPostalCode'', JStr (postal m)),
      (u ''locationCountry'', JStr (country m)),
      (u ''locationUrl'', JStr (map_url m)),
      (u ''location_street'', JStr (street m)),
      (u ''location_municipality'', JStr (city m)),
      (u ''location_postal_code'', JStr (postal m)),
      (u ''location_country'', JStr (country m)),
      (u ''location_url'', JStr (map_url m)),
      (u ''locationProvince'', JStr (DEFAULT_PROVINCE C)),
      (u ''location_province'', JStr (DEFAULT_PROVINCE C)),
      (u ''virtualMeetingLink'', JStr (virtual_link m)),
      (u ''virtual_meeting_link'', JStr (virtual_link m)),
      (u ''phoneMeetingNumber'', JStr (phone_number m)),
      (u ''phone_meeting_number'', JStr (phone_number m)),
      (u ''comments'', JStr (comments m)),
      (u ''externalId'', JStr (u ''wp:'' @ str_int (wp_id obj)))]"

text \<open>Steps 1 to 8: a skip with its reason, or the payload; the state carries the
  cache and the calls made.\<close>

definition assemble ::
  "pyenv \<Rightarrow> config \<Rightarrow> (ustr \<rightharpoonup> int) \<Rightarrow> int set \<Rightarrow> wp_item \<Rightarrow> geo_reply \<Rightarrow> run_state \<Rightarrow>
     (ustr + pydict) \<times> run_state" where
  "assemble E C format_key_to_id allowed_format_ids obj geo st =
     (case transform E format_key_to_id allowed_format_ids obj of
        Inl reason \<Rightarrow> (Inl reason, st)
      | Inr m \<Rightarrow>
          (case resolve_coordinates C m geo st of
             (Inl reason, st') \<Rightarrow> (Inl reason, st')
           | (Inr latlon, st') \<Rightarrow> (Inr (build_payload C obj m latlon), st')))"

definition meetings_url :: "config \<Rightarrow> ustr" where
  "meetings_url C = BMLT_BASE_URL C @ BMLT_API_PREFIX @ u ''/meetings''"

text \<open>
  What became of a record: skipped with a reason, created, failed with a reason, or
  an exception left the loop and \<open>main\<close> (\<open>Aborted\<close>).
\<close>

datatype outcome = Skipped ustr | Created pydict | Failed ustr pydict | Aborted

text \<open>The clause \<open>except Exception\<close>: its \<open>print\<close>, then the two counters.\<close>

definition handle_exception :: "pub_reply \<Rightarrow> pydict \<Rightarrow> run_state \<Rightarrow> outcome \<times> run_state" where
  "handle_exception pub payload st =
     (if \<not> failed_print_ok pub then (Aborted, st)
      else (Failed (u ''exception'') payload, count_failure (u ''exception'') st))"

text \<open>
  Lines 573 to 600. After the call has returned the counter and the fingerprint are
  updated before the notes are printed; a note that fails to print raises inside the
  \<open>try\<close> block and is handled by \<open>except Exception\<close>. An exception raised inside a
  handler (by \<open>e.read()\<close> or by \<open>print\<close>) is not handled.
\<close>

definition publish ::
  "pyenv \<Rightarrow> config \<Rightarrow> wp_item \<Rightarrow> pydict \<Rightarrow> ustr list \<Rightarrow> int list \<Rightarrow> pub_reply \<Rightarrow> run_state \<Rightarrow>
     outcome \<times> run_state" where
  "publish E C obj payload missing_keys removed_ids pub st =
     (let fp = payload_fingerprint E payload;
          key = str_int (wp_id obj)
      in if fingerprints st key = Some fp
         then (Skipped (u ''unchanged''), count_skip (u ''unchanged'') st)
         else
           (let st = emit [Registry_request POST (meetings_url C) payload] st
            in case call_of (registry pub) of
                 Call_returns \<Rightarrow>
                   (let st = st\<lparr>created := created st + 1,
                                  fingerprints := (fingerprints st)(key \<mapsto> fp)\<rparr>;
                        prints = (created st mod 25 = 0 \<or> missing_keys \<noteq> [] \<or>
                                  removed_ids \<noteq> [])
                    in if prints \<and> \<not> note_print_ok pub then handle_exception pub payload st
                       else (Created payload, st))
               | Call_http_error code body \<Rightarrow>
                   (case body of
                      None \<Rightarrow> (Aborted, st)
                    | Some text \<Rightarrow>
                        if \<not> failed_print_ok pub then (Aborted, st)
                        else (Failed (str_int code) payload, count_failure (str_int code) st))
               | Call_raises \<Rightarrow> handle_exception pub payload st))"

definition process_item ::
  "pyenv \<Rightarrow> config \<Rightarrow> (ustr \<rightharpoonup> int) \<Rightarrow> int set \<Rightarrow> wp_item \<Rightarrow> geo_reply \<Rightarrow> pub_reply \<Rightarrow>
     run_state \<Rightarrow> outcome \<times> run_state" where
  "process_item E C format_key_to_id allowed_format_ids obj geo pub st =
     (case assemble E C format_key_to_id allowed_format_ids obj geo st of
        (Inl reason, st') \<Rightarrow> (Skipped reason, count_skip reason st')
      | (Inr payload, st') \<Rightarrow>
          publish E C obj payload
            (snd (build_format_ids E obj format_key_to_id))
            (filter (\<lambda>fid. fid \<notin> allowed_format_ids)
               (fst (build_format_ids E obj format_key_to_id)))
            pub st')"

text \<open>The loop of \<open>main\<close> over the fetched records, each with the replies of the two
  collaborators for it. An exception that leaves the loop ends the run.\<close>

fun run_items ::
  "pyenv \<Rightarrow> config \<Rightarrow> (ustr \<rightharpoonup> int) \<Rightarrow> int set \<Rightarrow> (wp_item \<times> geo_reply \<times> pub_reply) list \<Rightarrow>
     run_state \<Rightarrow> run_state" where
  "run_items E C format_key_to_id allowed_format_ids [] st = st"
| "run_items E C format_key_to_id allowed_format_ids ((obj, geo, pub) # rest) st =
     (case process_item E C format_key_to_id allowed_format_ids obj geo pub st of
        (Aborted, st') \<Rightarrow> st'
      | (_, st') \<Rightarrow> run_items E C format_key_to_id allowed_format_ids rest st')"

definition initial_state :: "(ustr \<rightharpoonup> ustr) \<Rightarrow> (ustr \<rightharpoonup> pyfloat \<times> pyfloat) \<Rightarrow> run_state" where
  "initial_state stored_fingerprints stored_cache =
     \<lparr>created = 0, skipped = 0, failed = 0,
      skipped_reasons = Map.empty, failed_reasons = Map.empty,
      fingerprints = stored_fingerprints, geocode_cache = stored_cache, trace = []\<rparr>"

section \<open>A sample environment\<close>

text \<open>
  An environment and a configuration for evaluating the definitions on concrete
  records. The tables give no character beyond ASCII any property; the serialiser
  writes keys and values one after the other and the digest is the identity.
\<close>

fun sample_render :: "jval \<Rightarrow> nat list" where
  "sample_render (JInt i) = str_int i"
| "sample_render (JStr s) = 34 # s @ [34]"
| "sample_render (JBool b) = (if b then u ''true'' else u ''false'')"
| "sample_render (JFloat (Float64 m e)) = str_int m @ [101] @ str_int e"
| "sample_render (JIntList xs) = 91 # concat (map (\<lambda>i. str_int i @ [44]) xs) @ [93]"

definition sample_env :: pyenv where
  "sample_env =
     \<lparr>lower_ext = (\<lambda>s i. [s ! i]),
      decimal_ext = (\<lambda>c. None),
      isdigit_ext = (\<lambda>c. False),
      isalpha_ext = (\<lambda>c. False),
      isnumeric_ext = (\<lambda>c. False),
      isprintable_ext = (\<lambda>c. True),
      int_max_str_digits = 4300,
      json_dumps_utf8 = (\<lambda>d. concat (map (\<lambda>(k, v). k @ [58] @ sample_render v @ [59]) d)),
      sha256_hexdigest = (\<lambda>b. b)\<rparr>"

definition sample_config :: config where
  "sample_config =
     \<lparr>BMLT_BASE_URL = u ''http://127.0.0.1'',
      SERVICE_BODY_ID = 1,
      DEFAULT_LAT = Float64 601699 (-4),
      DEFAULT_LON = Float64 249384 (-4),
      ALLOW_FALLBACK_COORDS = False,
      DEFAULT_PROVINCE = u ''Uusimaa''\<rparr>"

definition sample_formats :: "ustr \<rightharpoonup> int" where
  "sample_formats = [u ''FIN'' \<mapsto> 7, u ''O'' \<mapsto> 4, u ''VM'' \<mapsto> 9, u ''HY'' \<mapsto> 12]"

definition sample_item :: wp_item where
  "sample_item =
     \<lparr>wp_id = 101, title_rendered = u ''Maanantairyhm'' @ [228], slug = u ''maanantai'',
      weekday = u ''Maanantai'', alkamisaika = u ''19'', kesto = u ''90'',
      katuosoite = u ''Mannerheimintie 1'', postinumero = u ''00100'',
      kaupunki = u ''Helsinki'', maa = [], karttalinkki = [], lisatiedot = [],
      rel_kokousmuodot = TagStr (u ''Avoin''), rel_kokouskielet = TagStr (u ''suomi'')\<rparr>"

definition sample_allowed :: "int set" where
  "sample_allowed = {4, 7, 9, 12}"

definition sample_draft :: draft where
  "sample_draft =
     \<lparr>title = u ''Maanantairyhm'' @ [228], day = 1, start_time = u ''19:00'',
      duration = u ''01:30'', street = u ''Mannerheimintie 1'', postal = u ''00100'',
      city = u ''Helsinki'', country = u ''Finland'', map_url = [], comments = [],
      virtual_link = [], phone_number = [], venue_type = 1, format_ids = [4, 7],
      missing_format_keys = [], removed = []\<rparr>"

text \<open>A virtual record with a link and a telephone number, and an in-person record
  whose address fields are all in parentheses.\<close>

definition sample_virtual_item :: wp_item where
  "sample_virtual_item =
     sample_item\<lparr>katuosoite := [], postinumero := [], kaupunki := u ''Internet'',
                 karttalinkki := u ''https://zoom.us/j/1'',
                 lisatiedot := u ''Puhelin +358401234567''\<rparr>"

definition sample_paren_item :: wp_item where
  "sample_paren_item =
     sample_item\<lparr>katuosoite := u ''(takapiha)'', postinumero := [],
                 kaupunki := u ''(Helsinki)'', maa := u ''(FI)''\<rparr>"

definition sample_paren_draft :: draft where
  "sample_paren_draft =
     sample_draft\<lparr>street := u ''(takapiha)'', postal := [], city := u ''(Helsinki)'',
                  country := u ''(FI)''\<rparr>"

text \<open>A record whose only tag has no format in the sample index, a state that has a
  fingerprint and a cache entry for the first sample record, and two records with a
  start time that is not a time.\<close>

definition sample_meditation_item :: wp_item where
  "sample_meditation_item =
     sample_item\<lparr>rel_kokousmuodot := TagStr (u ''Meditaatio''), rel_kokouskielet := TagNone\<rparr>"

definition sample_stored_state :: run_state where
  "sample_stored_state =
     initial_state [u ''101'' \<mapsto> u ''0f3a'']
       [u ''Mannerheimintie 1, 00100, Helsinki, Finland'' \<mapsto>
          (Float64 601702 (-4), Float64 249391 (-4))]"

definition sample_klo_item :: wp_item where
  "sample_klo_item = sample_item\<lparr>alkamisaika := u '' klo 19.00''\<rparr>"

definition sample_blank_time_item :: wp_item where
  "sample_blank_time_item = sample_item\<lparr>alkamisaika := u '' ''\<rparr>"

text \<open>Publish steps: the registry accepts the meeting; it rejects it with 422; it
  answers 302 and \<open>urlopen\<close> follows the redirect to a page that it can fetch; it
  answers 500 and the reply breaks off while the handler reads it.\<close>

definition Pub_ok :: pub_reply where
  "Pub_ok =
     \<lparr>registry = Reg_status 200 (Some [123, 125]), note_print_ok = True,
      failed_print_ok = True\<rparr>"




definition sample_second_item :: wp_item where
  "sample_second_item = sample_item\<lparr>wp_id := 102, slug := u ''maanantai-2''\<rparr>"

section \<open>Predicates of the specification\<close>

text \<open>
  ``The field contains the word, case-insensitively'': the word occurs in the lowered
  field.
\<close>

definition contains_lowered :: "pyenv \<Rightarrow> ustr \<Rightarrow> ustr \<Rightarrow> bool" where
  "contains_lowered E needle s \<longleftrightarrow> (\<exists>pre post. py_lower E s = pre @ needle @ post)"

text \<open>A request that creates a meeting: \<open>POST\<close> to the meetings endpoint. The
  other calls of a run are not requests to the registry.\<close>

definition is_create :: "config \<Rightarrow> event \<Rightarrow> bool" where
  "is_create C e =
     (case e of
        Registry_request verb url body \<Rightarrow> verb = POST \<and> url = meetings_url C
      | _ \<Rightarrow> True)"


text \<open>The form \<open>HH:MM\<close>: two digits, a colon, two digits.\<close>

definition ascii_digit :: "nat \<Rightarrow> bool" where
  "ascii_digit c \<longleftrightarrow> 48 \<le> c \<and> c \<le> 57"

definition is_hhmm :: "ustr \<Rightarrow> bool" where
  "is_hhmm s \<longleftrightarrow>
     length s = 5 \<and> ascii_digit (s ! 0) \<and> ascii_digit (s ! 1) \<and> s ! 2 = 58 \<and>
     ascii_digit (s ! 3) \<and> ascii_digit (s ! 4)"

section \<open>Properties\<close>

subsection \<open>Evaluation\<close>

text \<open>The equations that evaluate the definitions on a concrete record.\<close>

lemmas ev =
  u_def py_isspace_def py_lstrip_def py_rstrip_def py_strip_def py_rstrip_chars_def
  startswith_def lower_at_def py_lower_def decimal_value_def re_digit_def isdigit_char_def
  py_isdigit_def re_word_def str_nat.simps str_int_def fmt02d_def int_space_def py_int_def
  WEEKDAY_MAP_def parse_time_def normalize_time_def duration_hm_def strip_html_like_def
  hex_digit_def isprintable_char_def repr_char_def py_repr_def is_virtual_def url_at_def
  extract_first_url_def phone_compact_at_def phone_loose_at_def extract_phone_number_def
  clean_part_def clean_geocode_query_def FORMAT_KEY_MAP_def lookup_format_def
  build_format_ids_def BMLT_API_PREFIX_def VENUE_IN_PERSON_def VENUE_VIRTUAL_def
  VENUE_HYBRID_def item_title_def item_country_def item_virtual_link_def
  item_venue_type_def filtered_format_ids_def item_format_ids_def transform_def
  geocode_query_def truncate_comments_def COMMENTS_MAX_def List.map_filter_def Let_def
  sample_env_def sample_config_def sample_formats_def sample_item_def sample_allowed_def
  sample_draft_def sample_virtual_item_def sample_paren_item_def sample_paren_draft_def
  sample_meditation_item_def sample_klo_item_def sample_blank_time_item_def
  sample_second_item_def

lemma u_eq_iff [simp]: "u a = u b \<longleftrightarrow> a = b"
  by (simp add: u_def inj_map_eq_map inj_on_def)

lemma u_Nil [simp]: "u s = [] \<longleftrightarrow> s = []"
  by (simp add: u_def)

lemma transform_sample:
  "transform sample_env sample_formats sample_allowed sample_item = Inr sample_draft"
  by (simp add: ev)


subsection \<open>Truncation of comments\<close>

lemma truncate_comments_short:
  "length s \<le> 512 \<Longrightarrow> truncate_comments s = s"
  by (simp add: truncate_comments_def COMMENTS_MAX_def)

lemma truncate_comments_long:
  "512 < length s \<Longrightarrow> truncate_comments s = take 511 s @ [ELLIPSIS]"
  by (auto simp: truncate_comments_def COMMENTS_MAX_def)

lemma truncate_comments_length:
  "length (truncate_comments s) \<le> 512"
proof (cases "length s \<le> 512")
  case True
  then show ?thesis by (simp add: truncate_comments_short)
next
  case False
  then show ?thesis by (simp add: truncate_comments_long)
qed

text \<open>
  C8. \<open>truncate_comments\<close> is idempotent, its result is never longer than 512
  characters, a string of at most 512 characters is returned as it is, and a longer one
  becomes its first 511 characters followed by one ellipsis character.
\<close>

theorem truncate_comments_spec:
  "truncate_comments (truncate_comments s) = truncate_comments s \<and>
   length (truncate_comments s) \<le> 512 \<and>
   (length s \<le> 512 \<longrightarrow> truncate_comments s = s) \<and>
   (512 < length s \<longrightarrow> truncate_comments s = take 511 s @ [8230])"
proof -
  have "truncate_comments (truncate_comments s) = truncate_comments s"
    using truncate_comments_length [of s] by (rule truncate_comments_short)
  moreover have "512 < length s \<longrightarrow> truncate_comments s = take 511 s @ [8230]"
    using truncate_comments_long [of s] by (simp add: ELLIPSIS_def)
  ultimately show ?thesis
    by (simp add: truncate_comments_length truncate_comments_short)
qed

theorem truncate_comments_spec_witness:
  "length (u ''Tervetuloa'') \<le> 512 \<and>
   truncate_comments (u ''Tervetuloa'') = u ''Tervetuloa'' \<and>
   512 < length (replicate 600 (97::nat)) \<and>
   truncate_comments (replicate 600 97) = replicate 511 97 @ [8230] \<and>
   length (truncate_comments (replicate 600 97)) = 512 \<and>
   truncate_comments (truncate_comments (replicate 600 97)) =
     truncate_comments (replicate 600 97)"
proof -
  have short: "length (u ''Tervetuloa'') \<le> 512"
    by (simp add: u_def)
  have long: "512 < length (replicate 600 (97::nat))"
    by simp
  have a: "truncate_comments (u ''Tervetuloa'') = u ''Tervetuloa''"
    using truncate_comments_spec [of "u ''Tervetuloa''"] short by blast
  have b: "truncate_comments (replicate 600 97) = take 511 (replicate 600 97) @ [8230]"
    using truncate_comments_spec [of "replicate 600 97"] long by blast
  have c: "truncate_comments (truncate_comments (replicate 600 97)) =
      truncate_comments (replicate 600 97)"
    using truncate_comments_spec [of "replicate 600 97"] by blast
  have d: "length (truncate_comments (replicate 600 97)) = 512"
    by (simp add: b)
  from short long a b c d show ?thesis
    by simp
qed

subsection \<open>Strings\<close>

lemma startswith_iff: "startswith s p \<longleftrightarrow> (\<exists>post. s = p @ post)"
proof
  assume "startswith s p"
  then have "s = p @ drop (length p) s"
    unfolding startswith_def by (metis append_take_drop_id)
  then show "\<exists>post. s = p @ post" ..
next
  assume "\<exists>post. s = p @ post"
  then show "startswith s p"
    by (auto simp: startswith_def)
qed

lemma py_in_iff: "py_in needle hay \<longleftrightarrow> (\<exists>pre post. hay = pre @ needle @ post)"
proof (induction hay)
  case Nil
  show ?case by auto
next
  case (Cons c cs)
  show ?case
  proof
    assume "py_in needle (c # cs)"
    then consider "startswith (c # cs) needle" | "py_in needle cs"
      by auto
    then show "\<exists>pre post. c # cs = pre @ needle @ post"
    proof cases
      case 1
      then obtain post where "c # cs = needle @ post"
        by (auto simp: startswith_iff)
      then have "c # cs = [] @ needle @ post" by simp
      then show ?thesis by blast
    next
      case 2
      then obtain pre post where "cs = pre @ needle @ post"
        using Cons.IH by auto
      then have "c # cs = (c # pre) @ needle @ post" by simp
      then show ?thesis by blast
    qed
  next
    assume "\<exists>pre post. c # cs = pre @ needle @ post"
    then obtain pre post where eq: "c # cs = pre @ needle @ post"
      by auto
    show "py_in needle (c # cs)"
    proof (cases pre)
      case Nil
      with eq have "startswith (c # cs) needle"
        by (auto simp: startswith_iff)
      then show ?thesis by simp
    next
      case (Cons a pre')
      with eq have "cs = pre' @ needle @ post" by simp
      then have "py_in needle cs"
        using Cons.IH by blast
      then show ?thesis by simp
    qed
  qed
qed

text \<open>On ASCII text \<open>lower\<close> is the ASCII lowering, whatever the tables say.\<close>

lemma py_lower_ascii:
  assumes "list_all (\<lambda>c. c < 128) s"
  shows "py_lower E s = map (\<lambda>c. if 65 \<le> c \<and> c \<le> 90 then c + 32 else c) s"
proof -
  let ?f = "\<lambda>c::nat. if 65 \<le> c \<and> c \<le> 90 then c + 32 else c"
  have "lower_at E s i = [?f (s ! i)]" if "i < length s" for i
    using assms that by (auto simp: lower_at_def list_all_length Let_def)
  then have "map (lower_at E s) [0..<length s] = map (\<lambda>i. [?f (s ! i)]) [0..<length s]"
    by (intro map_cong) auto
  then have "py_lower E s = concat (map (\<lambda>i. [?f (s ! i)]) [0..<length s])"
    unfolding py_lower_def by (rule arg_cong)
  also have "\<dots> = map (\<lambda>i. ?f (s ! i)) [0..<length s]"
    by (induction "[0..<length s]") (simp_all add: concat_map_singleton)
  also have "\<dots> = map ?f s"
    by (rule nth_equalityI) simp_all
  finally show ?thesis .
qed

subsection \<open>The virtual classifier\<close>

text \<open>
  C4, as the code has it. The classifier returns true exactly when the lowered city
  contains ``internet'', or the lowered street contains ``zoom'', or the lowered map
  link contains ``zoom'' or ``teams''. The street is not searched for ``teams''.
\<close>

theorem is_virtual_rule:
  "is_virtual E obj \<longleftrightarrow>
     contains_lowered E (u ''internet'') (kaupunki obj) \<or>
     contains_lowered E (u ''zoom'') (katuosoite obj) \<or>
     contains_lowered E (u ''zoom'') (karttalinkki obj) \<or>
     contains_lowered E (u ''teams'') (karttalinkki obj)"
  by (simp add: is_virtual_def contains_lowered_def py_in_iff Let_def)

theorem is_virtual_rule_witness:
  "is_virtual sample_env (sample_item\<lparr>karttalinkki := u ''https://Teams.microsoft.com/l/1''\<rparr>)"
proof -
  let ?obj = "sample_item\<lparr>karttalinkki := u ''https://Teams.microsoft.com/l/1''\<rparr>"
  have "py_lower sample_env (karttalinkki ?obj) =
      u ''https://'' @ u ''teams'' @ u ''.microsoft.com/l/1''"
    by code_simp
  then have "contains_lowered sample_env (u ''teams'') (karttalinkki ?obj)"
    unfolding contains_lowered_def by blast
  then show ?thesis
    using is_virtual_rule [of sample_env ?obj] by blast
qed

text \<open>
  The claim as it is written fails: a record whose street contains ``Teams'', with
  nothing else that points to a virtual meeting, is classified as not virtual.
\<close>

theorem is_virtual_teams_street_counterexample:
  "py_in (u ''teams'')
     (py_lower sample_env (katuosoite (sample_item\<lparr>katuosoite := u ''Teams-kokous''\<rparr>))) \<and>
   \<not> is_virtual sample_env (sample_item\<lparr>katuosoite := u ''Teams-kokous''\<rparr>)"
  by code_simp

subsection \<open>The fingerprint\<close>

lemma map_of_dict_pop:
  "map_of (dict_pop k d) k' = (if k' = k then None else map_of d k')"
  by (induction d) (auto simp: dict_pop_def)

lemma distinct_dict_pop:
  "distinct (map fst d) \<Longrightarrow> distinct (map fst (dict_pop k d))"
  by (simp add: dict_pop_def distinct_map_filter)

lemma filter_same_key:
  "distinct (map fst xs) \<Longrightarrow> kv \<in> set xs \<Longrightarrow> filter (\<lambda>x. fst kv = fst x) xs = [kv]"
proof (induction xs)
  case Nil
  then show ?case by simp
next
  case (Cons a xs)
  show ?case
  proof (cases "kv = a")
    case True
    have "filter (\<lambda>x. fst a = fst x) xs = []"
      using Cons.prems(1) by (auto simp: filter_empty_conv image_iff)
    with True show ?thesis by simp
  next
    case False
    with Cons.prems have in_xs: "kv \<in> set xs" by simp
    then have "fst kv \<in> fst ` set xs" by (rule imageI)
    moreover have "fst a \<notin> fst ` set xs"
      using Cons.prems(1) by simp
    ultimately have "fst kv \<noteq> fst a" by metis
    moreover have "filter (\<lambda>x. fst kv = fst x) xs = [kv]"
      using Cons.IH Cons.prems(1) in_xs by simp
    ultimately show ?thesis by simp
  qed
qed

text \<open>Sorting by key forgets the order in which a dictionary was filled.\<close>

lemma sort_key_fst_unique:
  assumes dx: "distinct (map fst xs)" and dy: "distinct (map fst ys)"
    and m: "map_of xs = map_of ys"
  shows "sort_key fst xs = sort_key fst ys"
proof (rule properties_for_sort_key)
  have s: "set xs = set ys"
    using dx dy m by (simp add: map_of_inject_set)
  have "distinct xs" "distinct ys"
    using dx dy by (simp_all add: distinct_map)
  with s have ms: "mset xs = mset ys"
    by (simp add: set_eq_iff_mset_eq_distinct)
  then show "mset (sort_key fst ys) = mset xs"
    by simp
  show "sorted (map fst (sort_key fst ys))"
    by (rule sorted_sort_key)
  fix kv
  assume "kv \<in> set (sort_key fst ys)"
  then have k: "kv \<in> set ys" by simp
  have dsy: "distinct (map fst (sort_key fst ys))"
    using dy by (simp add: distinct_map inj_on_def)
  have "filter (\<lambda>x. fst kv = fst x) (sort_key fst ys) = [kv]"
    using dsy k by (intro filter_same_key) simp_all
  moreover have "filter (\<lambda>x. fst kv = fst x) xs = [kv]"
    using dx k s by (intro filter_same_key) simp_all
  ultimately show
    "filter (\<lambda>x. fst kv = fst x) (sort_key fst ys) = filter (\<lambda>x. fst kv = fst x) xs"
    by simp
qed

lemma fingerprint_of_relevant:
  assumes "distinct (map fst p)" and "distinct (map fst q)"
    and "\<And>k. k \<noteq> u ''latitude'' \<Longrightarrow> k \<noteq> u ''longitude'' \<Longrightarrow> map_of p k = map_of q k"
  shows "payload_fingerprint E p = payload_fingerprint E q"
proof -
  let ?p = "dict_pop (u ''longitude'') (dict_pop (u ''latitude'') p)"
  let ?q = "dict_pop (u ''longitude'') (dict_pop (u ''latitude'') q)"
  have "map_of ?p = map_of ?q"
    using assms(3) by (auto simp: map_of_dict_pop fun_eq_iff)
  moreover have "distinct (map fst ?p)" "distinct (map fst ?q)"
    using assms(1,2) by (simp_all add: distinct_dict_pop)
  ultimately have "sort_key fst ?p = sort_key fst ?q"
    by (intro sort_key_fst_unique)
  then show ?thesis
    by (simp add: payload_fingerprint_def)
qed

text \<open>
  C2. Two payload dictionaries that agree on every key other than \<open>latitude\<close> and
  \<open>longitude\<close> have the same fingerprint, whatever the two coordinates are and in
  whatever order the dictionaries were filled.
\<close>

theorem payload_fingerprint_ignores_coordinates:
  assumes "distinct (map fst p)" and "distinct (map fst q)"
    and "\<forall>k. k \<noteq> u ''latitude'' \<and> k \<noteq> u ''longitude'' \<longrightarrow> map_of p k = map_of q k"
  shows "payload_fingerprint E p = payload_fingerprint E q"
  using assms by (intro fingerprint_of_relevant) auto


lemma distinct_build_payload: "distinct (map fst (build_payload C obj m latlon))"
  by (simp add: build_payload_def)

lemma build_payload_relevant:
  "k \<noteq> u ''latitude'' \<Longrightarrow> k \<noteq> u ''longitude'' \<Longrightarrow>
   map_of (build_payload C obj m latlon) k = map_of (build_payload C obj m latlon') k"
  by (simp add: build_payload_def)

theorem payload_fingerprint_ignores_coordinates_witness:
  "build_payload sample_config sample_item sample_draft
     (Float64 601699 (-4), Float64 249384 (-4)) \<noteq>
   build_payload sample_config sample_item sample_draft
     (Float64 601702 (-4), Float64 249391 (-4)) \<and>
   payload_fingerprint sample_env
     (build_payload sample_config sample_item sample_draft
        (Float64 601699 (-4), Float64 249384 (-4))) =
   payload_fingerprint sample_env
     (build_payload sample_config sample_item sample_draft
        (Float64 601702 (-4), Float64 249391 (-4)))"
proof -
  let ?p = "build_payload sample_config sample_item sample_draft
      (Float64 601699 (-4), Float64 249384 (-4))"
  let ?q = "build_payload sample_config sample_item sample_draft
      (Float64 601702 (-4), Float64 249391 (-4))"
  have "?p \<noteq> ?q"
    by (simp add: build_payload_def)
  moreover have
    "\<forall>k. k \<noteq> u ''latitude'' \<and> k \<noteq> u ''longitude'' \<longrightarrow> map_of ?p k = map_of ?q k"
    by (simp add: build_payload_relevant)
  ultimately show ?thesis
    using payload_fingerprint_ignores_coordinates [of ?p ?q sample_env]
    by (simp add: distinct_build_payload)
qed

subsection \<open>The parts of the pipeline\<close>

lemma transform_Inr:
  assumes "transform E F A obj = Inr m"
  shows "map_of WEEKDAY_MAP (py_strip (weekday obj)) = Some (day m)"
    and "start_time m = normalize_time E (alkamisaika obj)"
    and "start_time m \<noteq> []"
    and "street m = py_strip (katuosoite obj)"
    and "postal m = py_strip (postinumero obj)"
    and "city m = py_strip (kaupunki obj)"
    and "country m = item_country obj"
    and "venue_type m = item_venue_type E obj"
    and "format_ids m = item_format_ids E F A obj"
    and "format_ids m \<noteq> []"
    and "virtual_link m = (if is_virtual E obj then item_virtual_link obj else [])"
    and "phone_number m = (if is_virtual E obj then extract_phone_number E (lisatiedot obj) else [])"
    and "is_virtual E obj \<Longrightarrow> virtual_link m \<noteq> [] \<or> phone_number m \<noteq> []"
    and "\<not> is_virtual E obj \<Longrightarrow> street m \<noteq> [] \<and> (city m \<noteq> [] \<or> postal m \<noteq> [])"
  using assms
  by (auto simp: transform_def Let_def split: option.splits if_splits)

lemma transform_Inl:
  assumes "transform E F A obj = Inl r"
  shows "r = u ''missing_day_or_time'' \<or> r = u ''virtual_missing_link_or_phone'' \<or>
         r = u ''in_person_missing_address'' \<or> r = u ''no_valid_formats''"
  using assms
  by (auto simp: transform_def Let_def split: option.splits if_splits)

lemma transform_missing_day_or_time:
  "transform E F A obj = Inl (u ''missing_day_or_time'') \<longleftrightarrow>
     map_of WEEKDAY_MAP (py_strip (weekday obj)) = None \<or> normalize_time E (alkamisaika obj) = []"
  by (auto simp: transform_def Let_def split: option.splits if_splits)

lemma transform_no_valid_formats:
  assumes "transform E F A obj \<noteq> Inl (u ''missing_day_or_time'')"
    and "transform E F A obj \<noteq> Inl (u ''virtual_missing_link_or_phone'')"
    and "transform E F A obj \<noteq> Inl (u ''in_person_missing_address'')"
  shows "(item_format_ids E F A obj = [] \<longrightarrow> transform E F A obj = Inl (u ''no_valid_formats'')) \<and>
         (item_format_ids E F A obj \<noteq> [] \<longrightarrow> (\<exists>m. transform E F A obj = Inr m))"
  using assms
  by (auto simp: transform_def Let_def split: option.splits if_splits)

lemma item_venue_type_cases:
  "item_venue_type E obj = VENUE_IN_PERSON \<or> item_venue_type E obj = VENUE_VIRTUAL \<or>
   item_venue_type E obj = VENUE_HYBRID"
  by (simp add: item_venue_type_def Let_def)

lemma venue_virtual_is_virtual:
  assumes "transform E F A obj = Inr m" and "venue_type m = VENUE_VIRTUAL"
  shows "is_virtual E obj"
  using assms
  by (auto simp: transform_def item_venue_type_def VENUE_VIRTUAL_def VENUE_IN_PERSON_def
      VENUE_HYBRID_def Let_def split: option.splits if_splits)

lemma venue_address:
  assumes "transform E F A obj = Inr m"
    and "venue_type m = VENUE_IN_PERSON \<or> venue_type m = VENUE_HYBRID"
  shows "street m \<noteq> [] \<and> (city m \<noteq> [] \<or> postal m \<noteq> [])"
  using assms
  by (auto simp: transform_def item_venue_type_def VENUE_VIRTUAL_def VENUE_IN_PERSON_def
      VENUE_HYBRID_def Let_def split: option.splits if_splits)

lemma resolve_coordinates_fingerprints:
  "resolve_coordinates C m geo st = (r, st') \<Longrightarrow>
   fingerprints st' = fingerprints st \<and> created st' = created st \<and> skipped st' = skipped st \<and>
   failed st' = failed st \<and> skipped_reasons st' = skipped_reasons st \<and>
   failed_reasons st' = failed_reasons st"
  by (auto simp: resolve_coordinates_def emit_def Let_def split: if_splits option.splits geo_reply.splits)

lemma assemble_Inr:
  assumes "assemble E C F A obj geo st = (Inr payload, st')"
  obtains m latlon where "transform E F A obj = Inr m"
    and "resolve_coordinates C m geo st = (Inr latlon, st')"
    and "payload = build_payload C obj m latlon"
  using assms
  by (auto simp: assemble_def split: sum.splits prod.splits)

lemma assemble_Inl:
  assumes "assemble E C F A obj geo st = (Inl r, st')"
  shows "(transform E F A obj = Inl r \<and> st' = st) \<or>
         (\<exists>m. transform E F A obj = Inr m \<and> resolve_coordinates C m geo st = (Inl r, st'))"
  using assms
  by (auto simp: assemble_def split: sum.splits prod.splits)

lemma assemble_fingerprints:
  assumes "assemble E C F A obj geo st = (r, st')"
  shows "fingerprints st' = fingerprints st \<and> created st' = created st \<and>
         skipped st' = skipped st \<and> failed st' = failed st \<and>
         skipped_reasons st' = skipped_reasons st \<and> failed_reasons st' = failed_reasons st"
  using assms
  by (auto simp: assemble_def split: sum.splits prod.splits dest!: resolve_coordinates_fingerprints)

lemma payload_lookups:
  "map_of (build_payload C obj m latlon) (u ''venueType'') = Some (JInt (venue_type m))"
  "map_of (build_payload C obj m latlon) (u ''virtualMeetingLink'') = Some (JStr (virtual_link m))"
  "map_of (build_payload C obj m latlon) (u ''virtual_meeting_link'') = Some (JStr (virtual_link m))"
  "map_of (build_payload C obj m latlon) (u ''phoneMeetingNumber'') = Some (JStr (phone_number m))"
  "map_of (build_payload C obj m latlon) (u ''phone_meeting_number'') = Some (JStr (phone_number m))"
  "map_of (build_payload C obj m latlon) (u ''locationStreet'') = Some (JStr (street m))"
  "map_of (build_payload C obj m latlon) (u ''location_street'') = Some (JStr (street m))"
  "map_of (build_payload C obj m latlon) (u ''locationCity'') = Some (JStr (city m))"
  "map_of (build_payload C obj m latlon) (u ''location_municipality'') = Some (JStr (city m))"
  "map_of (build_payload C obj m latlon) (u ''locationPostalCode'') = Some (JStr (postal m))"
  "map_of (build_payload C obj m latlon) (u ''location_postal_code'') = Some (JStr (postal m))"
  "map_of (build_payload C obj m latlon) (u ''formatIds'') = Some (JIntList (format_ids m))"
  "map_of (build_payload C obj m latlon) (u ''startTime'') = Some (JStr (start_time m))"
  "map_of (build_payload C obj m latlon) (u ''latitude'') = Some (JFloat (fst latlon))"
  "map_of (build_payload C obj m latlon) (u ''longitude'') = Some (JFloat (snd latlon))"
  by (simp_all add: build_payload_def)

subsection \<open>The assembled payload\<close>

lemma geocode_query_sample:
  "geocode_query sample_draft = u ''Mannerheimintie 1, 00100, Helsinki, Finland''"
  by (simp add: ev)

lemma venue_type_sample: "venue_type sample_draft = VENUE_IN_PERSON"
  by (simp add: sample_draft_def VENUE_IN_PERSON_def)

lemma assemble_sample:
  "fst (assemble sample_env sample_config sample_formats sample_allowed sample_item
     (Geo_found (Float64 601702 (-4)) (Float64 249391 (-4)))
     (initial_state Map.empty Map.empty)) =
   Inr (build_payload sample_config sample_item sample_draft
     (Float64 601702 (-4), Float64 249391 (-4)))"
  by (simp add: assemble_def resolve_coordinates_def transform_sample geocode_query_sample
      venue_type_sample initial_state_def Let_def)

lemma assemble_sample_virtual:
  "fst (assemble sample_env sample_config sample_formats sample_allowed sample_virtual_item
     Geo_empty (initial_state Map.empty Map.empty)) =
   Inr (build_payload sample_config sample_virtual_item
     (sample_draft\<lparr>street := [], postal := [], city := u ''Internet'',
        map_url := u ''https://zoom.us/j/1'', comments := u ''Puhelin +358401234567'',
        virtual_link := u ''https://zoom.us/j/1'', phone_number := u ''+358401234567'',
        venue_type := 2, format_ids := [9, 4, 7]\<rparr>)
     (DEFAULT_LAT sample_config, DEFAULT_LON sample_config))"
  by (simp add: assemble_def resolve_coordinates_def ev)

text \<open>
  C1, as the code has it. Every payload the pipeline assembles has one of the three
  venue types; when the venue type is virtual, the virtual link or the telephone number
  is non-empty (both may be); when it is in-person or hybrid, the street is non-empty
  and so is the city or the postal code.
\<close>

theorem payload_invariant:
  assumes "assemble E C F A obj geo st = (Inr payload, st')"
  shows "\<exists>vt link phone str cty pst.
     map_of payload (u ''venueType'') = Some (JInt vt) \<and>
     map_of payload (u ''virtualMeetingLink'') = Some (JStr link) \<and>
     map_of payload (u ''phoneMeetingNumber'') = Some (JStr phone) \<and>
     map_of payload (u ''locationStreet'') = Some (JStr str) \<and>
     map_of payload (u ''locationCity'') = Some (JStr cty) \<and>
     map_of payload (u ''locationPostalCode'') = Some (JStr pst) \<and>
     (vt = VENUE_IN_PERSON \<or> vt = VENUE_VIRTUAL \<or> vt = VENUE_HYBRID) \<and>
     (vt = VENUE_VIRTUAL \<longrightarrow> link \<noteq> [] \<or> phone \<noteq> []) \<and>
     (vt = VENUE_IN_PERSON \<or> vt = VENUE_HYBRID \<longrightarrow> str \<noteq> [] \<and> (cty \<noteq> [] \<or> pst \<noteq> []))"
proof -
  from assms obtain m latlon where t: "transform E F A obj = Inr m"
    and p: "payload = build_payload C obj m latlon"
    by (rule assemble_Inr)
  have kinds: "venue_type m = VENUE_IN_PERSON \<or> venue_type m = VENUE_VIRTUAL \<or>
      venue_type m = VENUE_HYBRID"
    using transform_Inr(8) [OF t] item_venue_type_cases [of E obj] by simp
  have virt: "venue_type m = VENUE_VIRTUAL \<longrightarrow> virtual_link m \<noteq> [] \<or> phone_number m \<noteq> []"
    using venue_virtual_is_virtual [OF t] transform_Inr(13) [OF t] by blast
  have addr: "venue_type m = VENUE_IN_PERSON \<or> venue_type m = VENUE_HYBRID \<longrightarrow>
      street m \<noteq> [] \<and> (city m \<noteq> [] \<or> postal m \<noteq> [])"
    using venue_address [OF t] by blast
  show ?thesis
    unfolding p payload_lookups using kinds virt addr by blast
qed

theorem payload_invariant_witness:
  "fst (assemble sample_env sample_config sample_formats sample_allowed sample_item
     (Geo_found (Float64 601702 (-4)) (Float64 249391 (-4)))
     (initial_state Map.empty Map.empty)) =
   Inr (build_payload sample_config sample_item sample_draft
     (Float64 601702 (-4), Float64 249391 (-4))) \<and>
   venue_type sample_draft = VENUE_IN_PERSON \<and>
   street sample_draft \<noteq> [] \<and>
   city sample_draft = u ''Helsinki'' \<and> postal sample_draft = u ''00100''"
proof -
  let ?r = "assemble sample_env sample_config sample_formats sample_allowed sample_item
     (Geo_found (Float64 601702 (-4)) (Float64 249391 (-4)))
     (initial_state Map.empty Map.empty)"
  let ?p = "build_payload sample_config sample_item sample_draft
     (Float64 601702 (-4), Float64 249391 (-4))"
  have a: "?r = (Inr ?p, snd ?r)"
    using assemble_sample by (metis prod.collapse)
  from payload_invariant [OF a] venue_type_sample
  have "street sample_draft \<noteq> []"
    unfolding payload_lookups by auto
  moreover have "city sample_draft = u ''Helsinki''" and "postal sample_draft = u ''00100''"
    by (simp_all add: sample_draft_def)
  ultimately show ?thesis
    using assemble_sample venue_type_sample by blast
qed

text \<open>
  The claim as it is written asks for exactly one of the two contact fields. A virtual
  record whose map link is a URL and whose notes hold a telephone number is assembled
  with both.
\<close>

theorem payload_both_contacts_counterexample:
  "(case fst (assemble sample_env sample_config sample_formats sample_allowed
       sample_virtual_item Geo_empty (initial_state Map.empty Map.empty)) of
      Inl reason \<Rightarrow> False
    | Inr payload \<Rightarrow>
        map_of payload (u ''venueType'') = Some (JInt VENUE_VIRTUAL) \<and>
        map_of payload (u ''virtualMeetingLink'') = Some (JStr (u ''https://zoom.us/j/1'')) \<and>
        map_of payload (u ''phoneMeetingNumber'') = Some (JStr (u ''+358401234567'')))"
  by (simp add: assemble_sample_virtual payload_lookups VENUE_VIRTUAL_def)

subsection \<open>Coordinates\<close>

lemma py_join_empty:
  "\<forall>p \<in> set ps. p \<noteq> [] \<Longrightarrow> py_join sep ps = [] \<longleftrightarrow> ps = []"
  by (induction sep ps rule: py_join.induct) auto

lemma clean_geocode_query_empty:
  "clean_geocode_query s p c k = [] \<longleftrightarrow>
     clean_part s = [] \<and> clean_part p = [] \<and> clean_part c = [] \<and> clean_part k = []"
proof -
  let ?parts = "filter (\<lambda>p. p \<noteq> []) [clean_part s, clean_part p, clean_part c, clean_part k]"
  have "clean_geocode_query s p c k = [] \<longleftrightarrow> ?parts = []"
    unfolding clean_geocode_query_def Let_def by (rule py_join_empty) simp
  also have "\<dots> \<longleftrightarrow>
      clean_part s = [] \<and> clean_part p = [] \<and> clean_part c = [] \<and> clean_part k = []"
    by (auto simp: filter_empty_conv)
  finally show ?thesis .
qed

lemma transform_sample_paren:
  "transform sample_env sample_formats sample_allowed sample_paren_item = Inr sample_paren_draft"
  by (simp add: ev)

lemma geocode_query_paren: "geocode_query sample_paren_draft = []"
  by (simp add: ev)

lemma venue_type_paren: "venue_type sample_paren_draft = VENUE_IN_PERSON"
  by (simp add: sample_paren_draft_def sample_draft_def VENUE_IN_PERSON_def)

text \<open>
  C7, as the code has it. For a record that reaches coordinate resolution: an in-person
  or hybrid record has passed the address guard; its query is empty exactly when street,
  postal code, city and country all clean to the empty string, which the guard does not
  exclude; with an empty query, and for every virtual record, the payload carries the
  default coordinates and the state is unchanged: no geocoding call is made and no
  cache entry is written.
\<close>

theorem empty_query_default_coordinates:
  assumes "transform E F A obj = Inr m"
  shows
    "(venue_type m = VENUE_IN_PERSON \<or> venue_type m = VENUE_HYBRID \<longrightarrow>
        street m \<noteq> [] \<and> (city m \<noteq> [] \<or> postal m \<noteq> [])) \<and>
     (geocode_query m = [] \<longleftrightarrow>
        clean_part (street m) = [] \<and> clean_part (postal m) = [] \<and>
        clean_part (city m) = [] \<and> clean_part (country m) = []) \<and>
     ((venue_type m = VENUE_IN_PERSON \<or> venue_type m = VENUE_HYBRID) \<and> geocode_query m = [] \<longrightarrow>
        assemble E C F A obj geo st =
          (Inr (build_payload C obj m (DEFAULT_LAT C, DEFAULT_LON C)), st)) \<and>
     (venue_type m = VENUE_VIRTUAL \<longrightarrow>
        assemble E C F A obj geo st =
          (Inr (build_payload C obj m (DEFAULT_LAT C, DEFAULT_LON C)), st))"
proof -
  have a: "venue_type m = VENUE_IN_PERSON \<or> venue_type m = VENUE_HYBRID \<longrightarrow>
      street m \<noteq> [] \<and> (city m \<noteq> [] \<or> postal m \<noteq> [])"
    using venue_address [OF assms] by blast
  have b: "geocode_query m = [] \<longleftrightarrow>
      clean_part (street m) = [] \<and> clean_part (postal m) = [] \<and>
      clean_part (city m) = [] \<and> clean_part (country m) = []"
    by (simp add: geocode_query_def clean_geocode_query_empty)
  have r1: "resolve_coordinates C m geo st = (Inr (DEFAULT_LAT C, DEFAULT_LON C), st)"
    if "geocode_query m = []"
    using that by (simp add: resolve_coordinates_def Let_def)
  have r2: "resolve_coordinates C m geo st = (Inr (DEFAULT_LAT C, DEFAULT_LON C), st)"
    if "venue_type m = VENUE_VIRTUAL"
    using that by (simp add: resolve_coordinates_def Let_def VENUE_VIRTUAL_def
        VENUE_IN_PERSON_def VENUE_HYBRID_def)
  have c: "assemble E C F A obj geo st =
        (Inr (build_payload C obj m (DEFAULT_LAT C, DEFAULT_LON C)), st)"
    if "geocode_query m = [] \<or> venue_type m = VENUE_VIRTUAL"
    using that r1 r2 by (auto simp: assemble_def assms)
  from a b c show ?thesis by blast
qed

theorem empty_query_default_coordinates_witness:
  "assemble sample_env sample_config sample_formats sample_allowed sample_paren_item Geo_raise
     (initial_state Map.empty Map.empty) =
   (Inr (build_payload sample_config sample_paren_item sample_paren_draft
           (DEFAULT_LAT sample_config, DEFAULT_LON sample_config)),
    initial_state Map.empty Map.empty)"
  using empty_query_default_coordinates [OF transform_sample_paren,
        of sample_config Geo_raise "initial_state Map.empty Map.empty"]
    venue_type_paren geocode_query_paren
  by blast

text \<open>
  The claim as it is written says that an in-person or hybrid record never has an empty
  query. A record whose street, city and country are parenthesised passes the address
  guard, is in-person, and has the empty query.
\<close>

theorem empty_query_in_person_counterexample:
  "transform sample_env sample_formats sample_allowed sample_paren_item = Inr sample_paren_draft \<and>
   venue_type sample_paren_draft = VENUE_IN_PERSON \<and>
   street sample_paren_draft \<noteq> [] \<and> city sample_paren_draft \<noteq> [] \<and>
   geocode_query sample_paren_draft = []"
  by (simp add: transform_sample_paren venue_type_paren geocode_query_paren)
    (simp add: sample_paren_draft_def)

text \<open>The same record with the tag \<open>Hybridi\<close> is hybrid and has the empty query too.\<close>

lemma empty_query_hybrid:
  "transform sample_env sample_formats sample_allowed
     (sample_paren_item\<lparr>rel_kokousmuodot := TagStr (u ''Hybridi'')\<rparr>) =
     Inr (sample_paren_draft\<lparr>venue_type := VENUE_HYBRID, format_ids := [12, 7]\<rparr>) \<and>
   geocode_query (sample_paren_draft\<lparr>venue_type := VENUE_HYBRID, format_ids := [12, 7]\<rparr>) = []"
  by (simp add: ev)

subsection \<open>The calls of a run\<close>

lemma resolve_coordinates_trace:
  "\<exists>evs. trace (snd (resolve_coordinates C m geo st)) = trace st @ evs \<and>
         list_all (is_create C) evs"
  by (auto simp: resolve_coordinates_def emit_def is_create_def Let_def
      split: option.splits geo_reply.splits)

lemma assemble_trace:
  "\<exists>evs. trace (snd (assemble E C F A obj geo st)) = trace st @ evs \<and>
         list_all (is_create C) evs"
proof (cases "transform E F A obj")
  case (Inl r)
  then show ?thesis by (simp add: assemble_def)
next
  case (Inr m)
  obtain evs where "trace (snd (resolve_coordinates C m geo st)) = trace st @ evs"
    and "list_all (is_create C) evs"
    using resolve_coordinates_trace by blast
  with Inr show ?thesis
    by (auto simp: assemble_def split: prod.splits sum.splits)
qed

lemma publish_trace:
  "\<exists>evs. trace (snd (publish E C obj payload ks ids pub st)) = trace st @ evs \<and>
         list_all (is_create C) evs"
  by (auto simp: publish_def handle_exception_def emit_def count_skip_def count_failure_def
      is_create_def Let_def split: call_result.splits option.splits)

lemma process_item_trace:
  "\<exists>evs. trace (snd (process_item E C F A obj geo pub st)) = trace st @ evs \<and>
         list_all (is_create C) evs"
proof -
  obtain r st1 where a: "assemble E C F A obj geo st = (r, st1)"
    by (cases "assemble E C F A obj geo st")
  obtain evs1 where e1: "trace st1 = trace st @ evs1" "list_all (is_create C) evs1"
    using assemble_trace [of E C F A obj geo st] a by auto
  show ?thesis
  proof (cases r)
    case (Inl reason)
    with a e1 show ?thesis
      by (simp add: process_item_def count_skip_def)
  next
    case (Inr payload)
    let ?ks = "snd (build_format_ids E obj F)"
    let ?ids = "filter (\<lambda>fid. fid \<notin> A) (fst (build_format_ids E obj F))"
    obtain evs2 where
      e2: "trace (snd (publish E C obj payload ?ks ?ids pub st1)) = trace st1 @ evs2"
      "list_all (is_create C) evs2"
      using publish_trace by blast
    have "trace (snd (process_item E C F A obj geo pub st)) = trace st @ (evs1 @ evs2)"
      using a Inr e1 e2 by (simp add: process_item_def)
    moreover have "list_all (is_create C) (evs1 @ evs2)"
      using e1 e2 by simp
    ultimately show ?thesis by blast
  qed
qed

lemma run_items_trace:
  "\<exists>evs. trace (run_items E C F A items st) = trace st @ evs \<and> list_all (is_create C) evs"
proof (induction items arbitrary: st)
  case Nil
  show ?case by simp
next
  case (Cons x items)
  obtain obj geo pub where x: "x = (obj, geo, pub)"
    by (cases x)
  obtain out st1 where r: "process_item E C F A obj geo pub st = (out, st1)"
    by (cases "process_item E C F A obj geo pub st")
  obtain evs1 where e1: "trace st1 = trace st @ evs1" "list_all (is_create C) evs1"
    using process_item_trace [of E C F A obj geo pub st] r by auto
  show ?case
  proof (cases "out = Aborted")
    case True
    with x r have "run_items E C F A (x # items) st = st1"
      by simp
    with e1 show ?thesis by blast
  next
    case False
    with x r have "run_items E C F A (x # items) st = run_items E C F A items st1"
      by (cases out) simp_all
    moreover obtain evs2 where "trace (run_items E C F A items st1) = trace st1 @ evs2"
      and "list_all (is_create C) evs2"
      using Cons.IH by blast
    ultimately have "trace (run_items E C F A (x # items) st) = trace st @ (evs1 @ evs2)"
      and "list_all (is_create C) (evs1 @ evs2)"
      using e1 by simp_all
    then show ?thesis by blast
  qed
qed

lemma publish_changed:
  assumes "fingerprints st (str_int (wp_id obj)) \<noteq> Some (payload_fingerprint E payload)"
  shows "trace (snd (publish E C obj payload ks ids pub st)) =
         trace st @ [Registry_request POST (meetings_url C) payload]"
  using assms
  by (auto simp: publish_def handle_exception_def emit_def count_failure_def Let_def
      split: call_result.splits option.splits)

text \<open>
  C9. Every request a run sends to the registry is a \<open>POST\<close> to the meetings
  endpoint: no other verb and no other URL occurs among the calls of the loop. A record
  whose stored fingerprint differs from the fingerprint of its payload is sent as such a
  \<open>POST\<close> with the whole payload.
\<close>

theorem registry_requests_are_creates:
  "list_all (is_create C) (trace (run_items E C F A items (initial_state fps cache))) \<and>
   (\<forall>payload st1 old.
      assemble E C F A obj geo st = (Inr payload, st1) \<and>
      fingerprints st (str_int (wp_id obj)) = Some old \<and>
      old \<noteq> payload_fingerprint E payload \<longrightarrow>
      trace (snd (process_item E C F A obj geo pub st)) =
        trace st1 @ [Registry_request POST (meetings_url C) payload])"
proof -
  have "list_all (is_create C) (trace (run_items E C F A items (initial_state fps cache)))"
    using run_items_trace [of E C F A items "initial_state fps cache"]
    by (auto simp: initial_state_def)
  moreover have "trace (snd (process_item E C F A obj geo pub st)) =
        trace st1 @ [Registry_request POST (meetings_url C) payload]"
    if a: "assemble E C F A obj geo st = (Inr payload, st1)"
      and f: "fingerprints st (str_int (wp_id obj)) = Some old"
      and n: "old \<noteq> payload_fingerprint E payload"
    for payload st1 old
  proof -
    have "fingerprints st1 = fingerprints st"
      using assemble_fingerprints [OF a] by simp
    with f n have "fingerprints st1 (str_int (wp_id obj)) \<noteq> Some (payload_fingerprint E payload)"
      by simp
    then show ?thesis
      using a by (simp add: process_item_def publish_changed)
  qed
  ultimately show ?thesis by blast
qed

lemma sample_fingerprint_colon:
  "58 \<in> set (payload_fingerprint sample_env (build_payload C obj m latlon))"
proof -
  let ?rel = "dict_pop (u ''longitude'') (dict_pop (u ''latitude'') (build_payload C obj m latlon))"
  let ?f = "\<lambda>(k, v). k @ [58] @ sample_render v @ [59]"
  have "(u ''comments'', JStr (comments m)) \<in> set ?rel"
    by (simp add: build_payload_def dict_pop_def)
  then have "(u ''comments'', JStr (comments m)) \<in> set (sort_key fst ?rel)"
    by simp
  moreover have "58 \<in> set (?f (u ''comments'', JStr (comments m)))"
    by simp
  ultimately have "58 \<in> set (concat (map ?f (sort_key fst ?rel)))"
    unfolding set_concat set_map by blast
  then show ?thesis
    by (simp add: payload_fingerprint_def sample_env_def)
qed

lemma sample_fingerprint_changed:
  "u ''0f3a'' \<noteq> payload_fingerprint sample_env (build_payload C obj m latlon)"
proof
  assume "u ''0f3a'' = payload_fingerprint sample_env (build_payload C obj m latlon)"
  then have "58 \<in> set (u ''0f3a'')"
    using sample_fingerprint_colon [of C obj m latlon] by simp
  then show False
    by (simp add: u_def)
qed

lemma str_int_101: "str_int 101 = u ''101''"
  by (simp add: ev)

lemma assemble_sample_cached:
  "assemble sample_env sample_config sample_formats sample_allowed sample_item geo
     sample_stored_state =
   (Inr (build_payload sample_config sample_item sample_draft
           (Float64 601702 (-4), Float64 249391 (-4))), sample_stored_state)"
  by (simp add: assemble_def resolve_coordinates_def transform_sample geocode_query_sample
      venue_type_sample initial_state_def sample_stored_state_def Let_def)


theorem registry_requests_are_creates_witness:
  "trace (snd (process_item sample_env sample_config sample_formats sample_allowed sample_item
     Geo_raise Pub_ok sample_stored_state)) =
   [Registry_request POST (u ''http://127.0.0.1/api/v1/meetings'')
      (build_payload sample_config sample_item sample_draft
         (Float64 601702 (-4), Float64 249391 (-4)))]"
proof -
  let ?p = "build_payload sample_config sample_item sample_draft
      (Float64 601702 (-4), Float64 249391 (-4))"
  have "fingerprints sample_stored_state (str_int (wp_id sample_item)) = Some (u ''0f3a'')"
    by (simp add: sample_stored_state_def initial_state_def sample_item_def str_int_101)
  moreover have "u ''0f3a'' \<noteq> payload_fingerprint sample_env ?p"
    by (rule sample_fingerprint_changed)
  ultimately have "trace (snd (process_item sample_env sample_config sample_formats
      sample_allowed sample_item Geo_raise Pub_ok sample_stored_state)) =
      trace sample_stored_state @ [Registry_request POST (meetings_url sample_config) ?p]"
    using registry_requests_are_creates [of sample_config sample_env sample_formats
        sample_allowed "[]" Map.empty Map.empty sample_item Geo_raise sample_stored_state Pub_ok]
      assemble_sample_cached [of Geo_raise]
    by blast
  then show ?thesis
    by (simp add: sample_stored_state_def initial_state_def meetings_url_def sample_config_def
        BMLT_API_PREFIX_def u_def)
qed

subsection \<open>Publishing\<close>

lemma call_returns_iff:
  "call_of r = Call_returns \<longleftrightarrow>
     (\<exists>code raw. r = Reg_status code (Some raw) \<and> 200 \<le> code \<and> code < 300) \<or>
     (\<exists>rc. r = Reg_followed rc Call_returns)"
  by (cases r) (auto split: option.splits)













subsection \<open>Formats\<close>

lemma item_format_ids_fallback:
  assumes "filtered_format_ids E F A obj = []"
  shows "item_format_ids E F A obj =
     (case F (u ''FIN'') of None \<Rightarrow> [] | Some fin \<Rightarrow> if fin \<in> A then [fin] else [])"
  using assms by (simp add: item_format_ids_def split: option.splits)

text \<open>
  C5. For a record that is not skipped before format resolution and whose ids are all
  removed by the valid-id filter (or that resolves to none): when the key \<open>FIN\<close> is in
  the index with a valid id, the record goes on with exactly that id, and every payload
  assembled for it carries it as its only format id; otherwise the record is skipped
  with the reason \<open>no_valid_formats\<close>, no call is made for it and no fingerprint is
  stored.
\<close>

theorem format_fallback:
  assumes "filtered_format_ids E F A obj = []"
    and "transform E F A obj \<noteq> Inl (u ''missing_day_or_time'')"
    and "transform E F A obj \<noteq> Inl (u ''virtual_missing_link_or_phone'')"
    and "transform E F A obj \<noteq> Inl (u ''in_person_missing_address'')"
  shows
    "(\<forall>fin. F (u ''FIN'') = Some fin \<and> fin \<in> A \<longrightarrow>
        (\<exists>m. transform E F A obj = Inr m \<and> format_ids m = [fin]) \<and>
        (\<forall>payload st'. assemble E C F A obj geo st = (Inr payload, st') \<longrightarrow>
           map_of payload (u ''formatIds'') = Some (JIntList [fin]))) \<and>
     ((\<forall>fin. F (u ''FIN'') = Some fin \<longrightarrow> fin \<notin> A) \<longrightarrow>
        process_item E C F A obj geo pub st =
          (Skipped (u ''no_valid_formats''), count_skip (u ''no_valid_formats'') st) \<and>
        trace (snd (process_item E C F A obj geo pub st)) = trace st \<and>
        fingerprints (snd (process_item E C F A obj geo pub st)) = fingerprints st \<and>
        created (snd (process_item E C F A obj geo pub st)) = created st)"
proof -
  note nv = transform_no_valid_formats [OF assms(2,3,4)]
  have one: "(\<exists>m. transform E F A obj = Inr m \<and> format_ids m = [fin]) \<and>
        (\<forall>payload st'. assemble E C F A obj geo st = (Inr payload, st') \<longrightarrow>
           map_of payload (u ''formatIds'') = Some (JIntList [fin]))"
    if f: "F (u ''FIN'') = Some fin" "fin \<in> A" for fin
  proof -
    have ids: "item_format_ids E F A obj = [fin]"
      using f by (simp add: item_format_ids_fallback [OF assms(1)])
    with nv obtain m where m: "transform E F A obj = Inr m"
      by auto
    have fm: "format_ids m = [fin]"
      using transform_Inr(9) [OF m] ids by simp
    have "map_of payload (u ''formatIds'') = Some (JIntList [fin])"
      if a: "assemble E C F A obj geo st = (Inr payload, st')" for payload st'
    proof -
      from a obtain m' latlon where "transform E F A obj = Inr m'"
        and p: "payload = build_payload C obj m' latlon"
        by (rule assemble_Inr)
      with m have "m' = m" by simp
      with p fm show ?thesis by (simp add: payload_lookups)
    qed
    with m fm show ?thesis by blast
  qed
  have none: "process_item E C F A obj geo pub st =
          (Skipped (u ''no_valid_formats''), count_skip (u ''no_valid_formats'') st) \<and>
        trace (snd (process_item E C F A obj geo pub st)) = trace st \<and>
        fingerprints (snd (process_item E C F A obj geo pub st)) = fingerprints st \<and>
        created (snd (process_item E C F A obj geo pub st)) = created st"
    if f: "\<forall>fin. F (u ''FIN'') = Some fin \<longrightarrow> fin \<notin> A"
  proof -
    have "item_format_ids E F A obj = []"
      using f by (simp add: item_format_ids_fallback [OF assms(1)] split: option.splits)
    with nv have "transform E F A obj = Inl (u ''no_valid_formats'')"
      by simp
    then have "process_item E C F A obj geo pub st =
          (Skipped (u ''no_valid_formats''), count_skip (u ''no_valid_formats'') st)"
      by (simp add: process_item_def assemble_def)
    then show ?thesis
      by (simp add: count_skip_def)
  qed
  from one none show ?thesis by blast
qed

lemma filtered_meditation:
  "filtered_format_ids sample_env sample_formats A sample_meditation_item = []"
  by (simp add: ev)

lemma transform_meditation:
  "transform sample_env sample_formats sample_allowed sample_meditation_item =
     Inr (sample_draft\<lparr>format_ids := [7], missing_format_keys := [u ''ME'']\<rparr>)"
  by (simp add: ev)

lemma transform_meditation_invalid:
  "transform sample_env sample_formats {4} sample_meditation_item = Inl (u ''no_valid_formats'')"
  by (simp add: ev)

theorem format_fallback_witness:
  "format_ids (sample_draft\<lparr>format_ids := [7], missing_format_keys := [u ''ME'']\<rparr>) = [7] \<and>
   transform sample_env sample_formats sample_allowed sample_meditation_item =
     Inr (sample_draft\<lparr>format_ids := [7], missing_format_keys := [u ''ME'']\<rparr>) \<and>
   process_item sample_env sample_config sample_formats {4} sample_meditation_item Geo_raise
     Pub_ok (initial_state Map.empty Map.empty) =
     (Skipped (u ''no_valid_formats''),
      count_skip (u ''no_valid_formats'') (initial_state Map.empty Map.empty))"
proof -
  have fin: "sample_formats (u ''FIN'') = Some 7"
    by (simp add: sample_formats_def)
  have valid: "(7::int) \<in> sample_allowed"
    by (simp add: sample_allowed_def)
  have invalid: "\<forall>fin. sample_formats (u ''FIN'') = Some fin \<longrightarrow> fin \<notin> {4}"
    by (simp add: fin)
  have a: "\<exists>m. transform sample_env sample_formats sample_allowed sample_meditation_item = Inr m \<and>
      format_ids m = [7]"
    using format_fallback [OF filtered_meditation [of sample_allowed],
        of sample_config Geo_raise "initial_state Map.empty Map.empty" Pub_ok]
      fin valid
    by (simp add: transform_meditation)
  have b: "process_item sample_env sample_config sample_formats {4} sample_meditation_item
      Geo_raise Pub_ok (initial_state Map.empty Map.empty) =
     (Skipped (u ''no_valid_formats''),
      count_skip (u ''no_valid_formats'') (initial_state Map.empty Map.empty))"
    using format_fallback [OF filtered_meditation [of "{4}"],
        of sample_config Geo_raise "initial_state Map.empty Map.empty" Pub_ok]
      invalid
    by (simp add: transform_meditation_invalid)
  from a b show ?thesis
    by (simp add: transform_meditation)
qed

subsection \<open>The delay after a lookup\<close>

lemma transform_sample_second:
  "transform sample_env sample_formats sample_allowed sample_second_item = Inr sample_draft"
  by (simp add: ev)

lemma process_item_sample_raise:
  assumes "transform sample_env sample_formats sample_allowed obj = Inr sample_draft"
    and "geocode_cache st (u ''Mannerheimintie 1, 00100, Helsinki, Finland'') = None"
  shows "process_item sample_env sample_config sample_formats sample_allowed obj Geo_raise pub st =
     (Skipped (u ''geocode_error''),
      count_skip (u ''geocode_error'')
        (emit [Geocode_call (u ''Mannerheimintie 1, 00100, Helsinki, Finland'')] st))"
  using assms
  by (simp add: process_item_def assemble_def resolve_coordinates_def
      geocode_query_sample venue_type_sample sample_config_def Let_def)

lemma process_item_sample_empty:
  assumes "transform sample_env sample_formats sample_allowed obj = Inr sample_draft"
    and "geocode_cache st (u ''Mannerheimintie 1, 00100, Helsinki, Finland'') = None"
  shows "process_item sample_env sample_config sample_formats sample_allowed obj Geo_empty pub st =
     (Skipped (u ''geocode_failed''),
      count_skip (u ''geocode_failed'')
        (emit [Geocode_call (u ''Mannerheimintie 1, 00100, Helsinki, Finland''), Sleep] st))"
  using assms
  by (simp add: process_item_def assemble_def resolve_coordinates_def
      geocode_query_sample venue_type_sample sample_config_def Let_def)

text \<open>
  C6 on two records with the same address, an empty cache and no fallback coordinates.
  When both lookups raise, the calls of the run are the two lookups and nothing else:
  no delay follows either of them. When both lookups return no result, a delay follows
  each.
\<close>

theorem geocode_error_no_delay:
  "trace (run_items sample_env sample_config sample_formats sample_allowed
     [(sample_item, Geo_raise, Pub_ok), (sample_second_item, Geo_raise, Pub_ok)]
     (initial_state Map.empty Map.empty)) =
   [Geocode_call (u ''Mannerheimintie 1, 00100, Helsinki, Finland''),
    Geocode_call (u ''Mannerheimintie 1, 00100, Helsinki, Finland'')] \<and>
   trace (run_items sample_env sample_config sample_formats sample_allowed
     [(sample_item, Geo_empty, Pub_ok), (sample_second_item, Geo_empty, Pub_ok)]
     (initial_state Map.empty Map.empty)) =
   [Geocode_call (u ''Mannerheimintie 1, 00100, Helsinki, Finland''), Sleep,
    Geocode_call (u ''Mannerheimintie 1, 00100, Helsinki, Finland''), Sleep]"
  by (simp add: process_item_sample_raise process_item_sample_empty transform_sample
      transform_sample_second count_skip_def emit_def initial_state_def)

subsection \<open>Start times\<close>

lemma py_replace_char:
  "py_replace [a] [b] s = map (\<lambda>c. if c = a then b else c) s"
  by (induction s) (simp_all add: startswith_def)

lemma py_strip_Nil [simp]: "py_strip [] = []"
  by (simp add: py_strip_def py_lstrip_def py_rstrip_def)

lemma py_split_hhmm:
  assumes "a \<noteq> 58" "b \<noteq> 58" "c \<noteq> 58" "d \<noteq> 58"
  shows "py_split 58 [a, b, 58, c, d] = [[a, b], [c, d]]"
  using assms by simp

lemma py_int_two_digits:
  assumes "ascii_digit a" and "ascii_digit b"
  shows "py_int E [a, b] = Some (int (10 * (a - 48) + (b - 48)))"
proof -
  have sp: "\<not> int_space a" "\<not> int_space b"
    using assms by (auto simp: ascii_digit_def int_space_def)
  have dv: "decimal_value E a = Some (a - 48)" "decimal_value E b = Some (b - 48)"
    using assms by (auto simp: ascii_digit_def decimal_value_def)
  have ne: "a \<noteq> 45" "a \<noteq> 43" "a \<noteq> 95" "b \<noteq> 95"
    using assms by (auto simp: ascii_digit_def)
  show ?thesis
    by (simp add: py_int_def sp dv ne Let_def)
qed

lemma length_five:
  "length s = 5 \<Longrightarrow> \<exists>a b c d e. s = [a, b, c, d, e]"
  by (auto simp: eval_nat_numeral length_Suc_conv)

lemma parse_time_hhmm:
  assumes "is_hhmm s"
  shows "parse_time E s \<noteq> None"
proof -
  from assms have "length s = 5"
    by (simp add: is_hhmm_def)
  then obtain a b x c d where s: "s = [a, b, x, c, d]"
    using length_five by blast
  with assms have x: "x = 58"
    and dg: "ascii_digit a" "ascii_digit b" "ascii_digit c" "ascii_digit d"
    by (simp_all add: is_hhmm_def eval_nat_numeral)
  have "a \<noteq> 58" "b \<noteq> 58" "c \<noteq> 58" "d \<noteq> 58"
    using dg by (auto simp: ascii_digit_def)
  then have "py_split 58 s = [[a, b], [c, d]]"
    unfolding s x by (rule py_split_hhmm)
  then show ?thesis
    by (simp add: parse_time_def py_int_two_digits dg Let_def)
qed

lemma normalize_time_unparsed:
  assumes "py_strip val \<noteq> []"
    and "parse_time E (py_replace (u ''.'') (u '':'') (py_strip val)) = None"
  shows "normalize_time E val = py_replace (u ''.'') (u '':'') (py_strip val)"
    and "normalize_time E val \<noteq> []"
    and "\<not> is_hhmm (normalize_time E val)"
proof -
  from assms(1) have "val \<noteq> []"
    by auto
  with assms(2) show eq: "normalize_time E val = py_replace (u ''.'') (u '':'') (py_strip val)"
    by (simp add: normalize_time_def Let_def)
  have "py_replace (u ''.'') (u '':'') (py_strip val) \<noteq> []"
    using assms(1) by (simp add: u_def py_replace_char)
  with eq show "normalize_time E val \<noteq> []"
    by simp
  show "\<not> is_hhmm (normalize_time E val)"
    using parse_time_hhmm [of "normalize_time E val" E] assms(2) eq by auto
qed

text \<open>
  C10, as the code has it. For a start time that is not blank and that
  \<open>normalize_time\<close> cannot parse, the result is the stripped input with its dots
  replaced by colons; it is not empty and not of the form \<open>HH:MM\<close>. The record is
  skipped at the first guard exactly when its weekday is not mapped, and every payload
  assembled for it carries that string as its start time.
\<close>

theorem unparsed_start_time:
  assumes "py_strip (alkamisaika obj) \<noteq> []"
    and "parse_time E (py_replace (u ''.'') (u '':'') (py_strip (alkamisaika obj))) = None"
  shows
    "normalize_time E (alkamisaika obj) =
       py_replace (u ''.'') (u '':'') (py_strip (alkamisaika obj)) \<and>
     normalize_time E (alkamisaika obj) \<noteq> [] \<and>
     \<not> is_hhmm (normalize_time E (alkamisaika obj)) \<and>
     (transform E F A obj = Inl (u ''missing_day_or_time'') \<longleftrightarrow>
        map_of WEEKDAY_MAP (py_strip (weekday obj)) = None) \<and>
     (\<forall>payload st'. assemble E C F A obj geo st = (Inr payload, st') \<longrightarrow>
        map_of payload (u ''startTime'') = Some (JStr (normalize_time E (alkamisaika obj))))"
proof -
  note n = normalize_time_unparsed [OF assms]
  have guard: "transform E F A obj = Inl (u ''missing_day_or_time'') \<longleftrightarrow>
      map_of WEEKDAY_MAP (py_strip (weekday obj)) = None"
    using n(2) by (simp add: transform_missing_day_or_time)
  have "map_of payload (u ''startTime'') = Some (JStr (normalize_time E (alkamisaika obj)))"
    if a: "assemble E C F A obj geo st = (Inr payload, st')" for payload st'
  proof -
    from a obtain m latlon where t: "transform E F A obj = Inr m"
      and p: "payload = build_payload C obj m latlon"
      by (rule assemble_Inr)
    show ?thesis
      using transform_Inr(2) [OF t] by (simp add: p payload_lookups)
  qed
  with n guard show ?thesis by blast
qed

lemma parse_time_klo:
  "parse_time sample_env (py_replace (u ''.'') (u '':'') (py_strip (alkamisaika sample_klo_item))) = None"
  by (simp add: ev)

lemma strip_klo: "py_strip (alkamisaika sample_klo_item) = u ''klo 19.00''"
  by (simp add: ev)

lemma transform_klo:
  "transform sample_env sample_formats sample_allowed sample_klo_item =
     Inr (sample_draft\<lparr>start_time := u ''klo 19:00''\<rparr>)"
  by (simp add: ev)

theorem unparsed_start_time_witness:
  "normalize_time sample_env (alkamisaika sample_klo_item) = u ''klo 19:00'' \<and>
   \<not> is_hhmm (u ''klo 19:00'') \<and>
   transform sample_env sample_formats sample_allowed sample_klo_item =
     Inr (sample_draft\<lparr>start_time := u ''klo 19:00''\<rparr>)"
proof -
  have "py_strip (alkamisaika sample_klo_item) \<noteq> []"
    by (simp add: strip_klo)
  from unparsed_start_time [OF this parse_time_klo]
  have "normalize_time sample_env (alkamisaika sample_klo_item) =
      py_replace (u ''.'') (u '':'') (py_strip (alkamisaika sample_klo_item))"
    and "\<not> is_hhmm (normalize_time sample_env (alkamisaika sample_klo_item))"
    by blast+
  moreover have "py_replace (u ''.'') (u '':'') (u ''klo 19.00'') = u ''klo 19:00''"
    by (simp add: u_def startswith_def)
  ultimately show ?thesis
    by (simp add: strip_klo transform_klo)
qed

text \<open>
  The claim as it is written fails on a start time of white space only: it is a
  non-empty string that cannot be parsed, \<open>normalize_time\<close> returns the empty string
  for it, and the record is skipped at the first guard although its weekday is mapped.
\<close>

theorem blank_start_time_counterexample:
  "alkamisaika sample_blank_time_item \<noteq> [] \<and>
   parse_time sample_env
     (py_replace (u ''.'') (u '':'') (py_strip (alkamisaika sample_blank_time_item))) = None \<and>
   normalize_time sample_env (alkamisaika sample_blank_time_item) = [] \<and>
   map_of WEEKDAY_MAP (py_strip (weekday sample_blank_time_item)) = Some 1 \<and>
   transform sample_env sample_formats sample_allowed sample_blank_time_item =
     Inl (u ''missing_day_or_time'')"
  by (simp add: ev)

text \<open>Every start time of white space only normalizes to the empty string, and its
  record is skipped at the first guard.\<close>

lemma blank_start_time_skipped:
  assumes "alkamisaika obj \<noteq> []" and "py_strip (alkamisaika obj) = []"
  shows "normalize_time E (alkamisaika obj) = []"
    and "transform E F A obj = Inl (u ''missing_day_or_time'')"
proof -
  show n: "normalize_time E (alkamisaika obj) = []"
    using assms by (simp add: normalize_time_def parse_time_def py_isdigit_def Let_def)
  then show "transform E F A obj = Inl (u ''missing_day_or_time'')"
    by (simp add: transform_missing_day_or_time)
qed

end
